theory Spec2Isabelle
  imports Complex_Main "HOL-Library.Sublist"
begin

text \<open>
  The chart of COVID-19 deaths and vaccination coverage in Chile: \<open>utils.js\<close>,
  \<open>config.js\<close> and the chart module. The sources hold two revisions of the chart
  module and of its configuration. The first (\<open>assets/js/chart.js\<close>) draws a legend
  block and three one-line milestones; the second installs a Spanish locale and draws
  end-of-line labels, two-line milestones and annotations. The loader, the scales, the
  lines and the resize handler are the same in both; where the two differ both are
  modelled, the second under the suffix 2. JavaScript's built-ins and the d3 library are
  modelled as far as the modules call them.
\<close>

section \<open>JavaScript numbers and strings\<close>

text \<open>
  A JavaScript number is a finite value, \<open>NaN\<close> or one of the two infinities. Finite
  values are modelled by exact rationals: rounding to the nearest double (and the sign of
  zero) is not modelled, overflow to an infinity is. A string is a list of 8-bit code
  units.
\<close>

datatype jsnum = Num rat | NaN | PosInf | NegInf

definition isNaN :: "jsnum \<Rightarrow> bool" where
  "isNaN v = (v = NaN)"

definition isFinite :: "jsnum \<Rightarrow> bool" where
  "isFinite v = (case v of Num _ \<Rightarrow> True | _ \<Rightarrow> False)"

text \<open>
  The unary addTo of \<open>+d.deaths_7d\<close> is ECMAScript's ToNumber. On a string it is
  StringToNumber: white space is trimmed, the empty string is 0, a decimal literal
  (optional sign, \<open>Infinity\<close>, digits, fraction, exponent) or an unsigned binary, octal or
  hexadecimal integer literal is its value, and everything else is \<open>NaN\<close>. On
  \<open>undefined\<close> (a column the CSV header does not have) it is \<open>NaN\<close>.
\<close>

definition isStrWhiteSpaceChar :: "char \<Rightarrow> bool" where
  "isStrWhiteSpaceChar c = (of_char c \<in> {9, 10, 11, 12, 13, 32, 160 :: nat})"

definition isDigit :: "char \<Rightarrow> bool" where
  "isDigit c = (48 \<le> (of_char c :: nat) \<and> (of_char c :: nat) \<le> 57)"

definition digitVal :: "char \<Rightarrow> nat" where
  "digitVal c =
     (let n = (of_char c :: nat) in
      if 48 \<le> n \<and> n \<le> 57 then n - 48
      else if 97 \<le> n \<and> n \<le> 102 then n - 87
      else n - 55)"

definition isRadixDigit :: "nat \<Rightarrow> char \<Rightarrow> bool" where
  "isRadixDigit radix c =
     (let n = (of_char c :: nat) in
      ((48 \<le> n \<and> n \<le> 57) \<or> (97 \<le> n \<and> n \<le> 102) \<or> (65 \<le> n \<and> n \<le> 70))
      \<and> digitVal c < radix)"

definition radixValue :: "nat \<Rightarrow> string \<Rightarrow> nat" where
  "radixValue radix ds = foldl (\<lambda>acc c. acc * radix + digitVal c) 0 ds"

definition trimWhiteSpace :: "string \<Rightarrow> string" where
  "trimWhiteSpace s =
     rev (dropWhile isStrWhiteSpaceChar (rev (dropWhile isStrWhiteSpaceChar s)))"

definition signedInteger :: "string \<Rightarrow> int option" where
  "signedInteger s =
     (case s of
        [] \<Rightarrow> None
      | c # ds \<Rightarrow>
          if c = CHR ''-'' then
            (if ds \<noteq> [] \<and> list_all isDigit ds then Some (- int (radixValue 10 ds)) else None)
          else if c = CHR ''+'' then
            (if ds \<noteq> [] \<and> list_all isDigit ds then Some (int (radixValue 10 ds)) else None)
          else if list_all isDigit s then Some (int (radixValue 10 s))
          else None)"

definition exponentPart :: "string \<Rightarrow> int option" where
  "exponentPart s =
     (case s of
        [] \<Rightarrow> Some 0
      | c # r \<Rightarrow> if c = CHR ''e'' \<or> c = CHR ''E'' then signedInteger r else None)"

definition strUnsignedDecimalLiteral :: "string \<Rightarrow> rat option" where
  "strUnsignedDecimalLiteral s =
     (let ip = takeWhile isDigit s;
          r1 = dropWhile isDigit s;
          dot = (case r1 of [] \<Rightarrow> False | c # _ \<Rightarrow> c = CHR ''.'');
          fp = (if dot then takeWhile isDigit (tl r1) else []);
          r2 = (if dot then dropWhile isDigit (tl r1) else r1)
      in if ip = [] \<and> fp = [] then None
         else (case exponentPart r2 of
                 None \<Rightarrow> None
               | Some e \<Rightarrow>
                   Some ((of_nat (radixValue 10 ip) + of_nat (radixValue 10 fp) / 10 ^ length fp)
                         * (if 0 \<le> e then 10 ^ nat e else 1 / 10 ^ nat (- e)))))"

definition roundToDouble :: "rat \<Rightarrow> jsnum" where
  "roundToDouble v =
     (if 2 ^ 1024 - 2 ^ 970 \<le> v then PosInf
      else if v \<le> - (2 ^ 1024 - 2 ^ 970) then NegInf
      else Num v)"

definition unaryMinus :: "jsnum \<Rightarrow> jsnum" where
  "unaryMinus v = (case v of Num r \<Rightarrow> Num (- r) | NaN \<Rightarrow> NaN | PosInf \<Rightarrow> NegInf | NegInf \<Rightarrow> PosInf)"

definition strUnsigned :: "string \<Rightarrow> jsnum" where
  "strUnsigned s =
     (if s = ''Infinity'' then PosInf
      else (case strUnsignedDecimalLiteral s of None \<Rightarrow> NaN | Some v \<Rightarrow> roundToDouble v))"

definition strDecimalLiteral :: "string \<Rightarrow> jsnum" where
  "strDecimalLiteral s =
     (case s of
        [] \<Rightarrow> NaN
      | c # r \<Rightarrow>
          if c = CHR ''+'' then strUnsigned r
          else if c = CHR ''-'' then unaryMinus (strUnsigned r)
          else strUnsigned s)"

definition nonDecimalIntegerLiteral :: "string \<Rightarrow> nat option" where
  "nonDecimalIntegerLiteral s =
     (case s of
        z # p # ds \<Rightarrow>
          if z = CHR ''0'' \<and> ds \<noteq> [] then
            (if (p = CHR ''x'' \<or> p = CHR ''X'') \<and> list_all (isRadixDigit 16) ds
               then Some (radixValue 16 ds)
             else if (p = CHR ''o'' \<or> p = CHR ''O'') \<and> list_all (isRadixDigit 8) ds
               then Some (radixValue 8 ds)
             else if (p = CHR ''b'' \<or> p = CHR ''B'') \<and> list_all (isRadixDigit 2) ds
               then Some (radixValue 2 ds)
             else None)
          else None
      | _ \<Rightarrow> None)"

definition StringToNumber :: "string \<Rightarrow> jsnum" where
  "StringToNumber s =
     (let t = trimWhiteSpace s in
      if t = [] then Num 0
      else (case nonDecimalIntegerLiteral t of
              Some n \<Rightarrow> roundToDouble (of_nat n)
            | None \<Rightarrow> strDecimalLiteral t))"

definition unaryPlus :: "string option \<Rightarrow> jsnum" where
  "unaryPlus v = (case v of None \<Rightarrow> NaN | Some s \<Rightarrow> StringToNumber s)"

section \<open>Dates\<close>

text \<open>
  A \<open>Date\<close> object is its time value in milliseconds. The local time zone is taken to be
  one without offset changes (UTC): local midnight of a day is a multiple of
  \<open>msPerDay\<close>. \<open>MakeDay\<close> is ECMAScript's; \<open>civilFromDay\<close> gives the year, the
  month (from 0) and the day of the month of a day number.
\<close>

datatype jsdate = Date int

definition msPerDay :: int where
  "msPerDay = 86400000"

definition getTime :: "jsdate \<Rightarrow> int" where
  "getTime d = (case d of Date t \<Rightarrow> t)"

definition DayFromYear :: "int \<Rightarrow> int" where
  "DayFromYear y =
     365 * (y - 1970) + (y - 1969) div 4 - (y - 1901) div 100 + (y - 1601) div 400"

definition InLeapYear :: "int \<Rightarrow> bool" where
  "InLeapYear y = (y mod 4 = 0 \<and> (y mod 100 \<noteq> 0 \<or> y mod 400 = 0))"

definition daysBeforeMonth :: "bool \<Rightarrow> int \<Rightarrow> int" where
  "daysBeforeMonth leap m =
     [0, 31, 59, 90, 120, 151, 181, 212, 243, 273, 304, 334] ! nat m
     + (if leap \<and> 2 \<le> m then 1 else 0)"

definition MakeDay :: "int \<Rightarrow> int \<Rightarrow> int \<Rightarrow> int" where
  "MakeDay year month dt =
     (let ym = year + month div 12; mn = month mod 12
      in DayFromYear ym + daysBeforeMonth (InLeapYear ym) mn + dt - 1)"

definition civilFromDay :: "int \<Rightarrow> int \<times> int \<times> int" where
  "civilFromDay z =
     (let z1 = z + 719468;
          era = z1 div 146097;
          doe = z1 - era * 146097;
          yoe = (doe - doe div 1460 + doe div 36524 - doe div 146096) div 365;
          doy = doe - (365 * yoe + yoe div 4 - yoe div 100);
          mp = (5 * doy + 2) div 153;
          d = doy - (153 * mp + 2) div 5 + 1;
          m = (if mp < 10 then mp + 2 else mp - 10);
          y = yoe + era * 400 + (if m \<le> 1 then 1 else 0)
      in (y, m, d))"

definition getFullYear :: "jsdate \<Rightarrow> int" where
  "getFullYear d = fst (civilFromDay (getTime d div msPerDay))"

definition getMonth :: "jsdate \<Rightarrow> int" where
  "getMonth d = fst (snd (civilFromDay (getTime d div msPerDay)))"

definition getDate :: "jsdate \<Rightarrow> int" where
  "getDate d = snd (snd (civilFromDay (getTime d div msPerDay)))"

text \<open>
  \<open>d3.timeParse('%Y-%m-%d')\<close>. The directives \<open>%Y\<close>, \<open>%m\<close> and \<open>%d\<close> read the
  regular expression \<open>^\s*\d+\<close> in the next 4, 2 and 2 characters, the hyphens must
  match, and the whole string must be consumed; otherwise the result is \<open>null\<close>. The
  fields are not range checked: they go to the \<open>Date\<close> constructor, which carries a
  month or day out of range over. Years 0 to 99 are set by \<open>setFullYear\<close> on a date
  built in the year -1, as d3's \<open>localDate\<close> does.
\<close>

definition numberRe :: "string \<Rightarrow> (nat \<times> nat) option" where
  "numberRe s =
     (let ws = takeWhile isStrWhiteSpaceChar s;
          ds = takeWhile isDigit (dropWhile isStrWhiteSpaceChar s)
      in if ds = [] then None else Some (radixValue 10 ds, length ws + length ds))"

definition localDate :: "int \<Rightarrow> int \<Rightarrow> int \<Rightarrow> jsdate" where
  "localDate y m d =
     (if 0 \<le> y \<and> y < 100 then
        (case civilFromDay (MakeDay (- 1) m d) of
           (y0, m0, d0) \<Rightarrow> Date (msPerDay * MakeDay y m0 d0))
      else Date (msPerDay * MakeDay y m d))"

definition parseLiteral :: "char \<Rightarrow> string \<Rightarrow> string option" where
  "parseLiteral c s = (case s of [] \<Rightarrow> None | x # r \<Rightarrow> if x = c then Some r else None)"

definition timeParse :: "string \<Rightarrow> jsdate option" where
  "timeParse s =
     (case numberRe (take 4 s) of
        None \<Rightarrow> None
      | Some (y, n1) \<Rightarrow>
          (case parseLiteral (CHR ''-'') (drop n1 s) of
             None \<Rightarrow> None
           | Some s1 \<Rightarrow>
               (case numberRe (take 2 s1) of
                  None \<Rightarrow> None
                | Some (m, n2) \<Rightarrow>
                    (case parseLiteral (CHR ''-'') (drop n2 s1) of
                       None \<Rightarrow> None
                     | Some s2 \<Rightarrow>
                         (case numberRe (take 2 s2) of
                            None \<Rightarrow> None
                          | Some (d, n3) \<Rightarrow>
                              if drop n3 s2 = [] then Some (localDate (int y) (int m - 1) (int d))
                              else None)))))"

definition timeParseField :: "string option \<Rightarrow> jsdate option" where
  "timeParseField v = (case v of None \<Rightarrow> timeParse ''undefined'' | Some s \<Rightarrow> timeParse s)"

section \<open>The loader of initChart\<close>

text \<open>
  \<open>rawData\<close> is what \<open>d3.csv\<close> resolves to: one object per data line, with a
  string under each column name of the header (\<open>None\<close> is \<open>undefined\<close>: the header has
  no such column; an empty field is the empty string).
\<close>

record rawRow =
  raw_date :: "string option"
  raw_deaths_7d :: "string option"
  raw_vaccinated_pct :: "string option"

record dataPoint =
  date :: "jsdate option"
  deaths_7d :: jsnum
  vaccinated_pct :: jsnum

text \<open>The callback of \<open>rawData.map\<close>.\<close>

definition parseRow :: "rawRow \<Rightarrow> dataPoint" where
  "parseRow d =
     \<lparr> date = timeParseField (raw_date d),
       deaths_7d = unaryPlus (raw_deaths_7d d),
       vaccinated_pct = unaryPlus (raw_vaccinated_pct d) \<rparr>"

text \<open>
  The callback of \<open>.filter\<close>, and of \<open>data.every\<close> in \<open>validateData\<close>.
  \<open>d.date instanceof Date\<close> is \<open>date d \<noteq> None\<close>; the two \<open>typeof ... === 'number'\<close>
  tests hold by the type of the fields.
\<close>

definition validRow :: "dataPoint \<Rightarrow> bool" where
  "validRow d =
     (date d \<noteq> None \<and>
      \<not> isNaN (deaths_7d d) \<and>
      \<not> isNaN (vaccinated_pct d) \<and>
      isFinite (deaths_7d d) \<and>
      isFinite (vaccinated_pct d))"

definition processData :: "rawRow list \<Rightarrow> dataPoint list" where
  "processData rawData = filter validRow (map parseRow rawData)"

datatype error = FetchError | NoValidData

text \<open>\<open>throw new Error('No valid data found')\<close> when nothing is left.\<close>

definition loadData :: "rawRow list \<Rightarrow> error + dataPoint list" where
  "loadData rawData =
     (let chartData = processData rawData
      in if length chartData = 0 then Inl NoValidData else Inr chartData)"

text \<open>\<open>validateData\<close> of utils.js; \<open>Array.isArray\<close> holds by the type.\<close>

definition validateData :: "dataPoint list \<Rightarrow> bool" where
  "validateData data =
     (if length data = 0 then False
      else list_all (\<lambda>d. date d \<noteq> None \<and>
                          \<not> isNaN (deaths_7d d) \<and>
                          \<not> isNaN (vaccinated_pct d) \<and>
                          isFinite (deaths_7d d) \<and>
                          isFinite (vaccinated_pct d)) data)"

section \<open>utils.js\<close>

text \<open>
  \<open>d3.timeFormat('%b %Y')\<close>: the locale's short name of the month, a space, and the
  year modulo 10000 padded with zeros to four digits. The locale is d3's default one; its
  \<open>shortMonths\<close> table is a parameter here. The second chart module installs the
  Spanish table below with \<open>d3.timeFormatDefaultLocale\<close>; d3 starts with the English
  one.
\<close>

definition digitChar :: "int \<Rightarrow> char" where
  "digitChar n = ''0123456789'' ! nat n"

definition pad2 :: "int \<Rightarrow> string" where
  "pad2 n = [digitChar (n div 10 mod 10), digitChar (n mod 10)]"

definition pad4 :: "int \<Rightarrow> string" where
  "pad4 n =
     (let a = \<bar>n\<bar> in
      (if n < 0 then ''-'' else []) @
      [digitChar (a div 1000 mod 10), digitChar (a div 100 mod 10),
       digitChar (a div 10 mod 10), digitChar (a mod 10)])"

definition formatFullYear :: "jsdate \<Rightarrow> string" where
  "formatFullYear d = pad4 (sgn (getFullYear d) * (\<bar>getFullYear d\<bar> mod 10000))"

definition formatShortMonth :: "string list \<Rightarrow> jsdate \<Rightarrow> string" where
  "formatShortMonth shortMonths d = shortMonths ! nat (getMonth d)"

definition formatAxisDate :: "string list \<Rightarrow> jsdate \<Rightarrow> string" where
  "formatAxisDate shortMonths d = formatShortMonth shortMonths d @ '' '' @ formatFullYear d"

definition shortMonths_es :: "string list" where
  "shortMonths_es =
     [''Ene'', ''Feb'', ''Mar'', ''Abr'', ''May'', ''Jun'',
      ''Jul'', ''Ago'', ''Sep'', ''Oct'', ''Nov'', ''Dic'']"

definition shortMonths_en :: "string list" where
  "shortMonths_en =
     [''Jan'', ''Feb'', ''Mar'', ''Apr'', ''May'', ''Jun'',
      ''Jul'', ''Aug'', ''Sep'', ''Oct'', ''Nov'', ''Dec'']"

text \<open>\<open>d3.timeFormat('%Y-%m-%d')\<close>, which \<open>addAnnotations\<close> uses to find a row by its date.\<close>

definition formatYmd :: "jsdate option \<Rightarrow> string" where
  "formatYmd v =
     (let d = (case v of None \<Rightarrow> Date 0 | Some x \<Rightarrow> x)
      in formatFullYear d @ ''-'' @ pad2 (getMonth d + 1) @ ''-'' @ pad2 (getDate d))"

text \<open>\<open>isMobile\<close> reads \<open>window.innerWidth\<close>, an argument here.\<close>

definition isMobile :: "int \<Rightarrow> int \<Rightarrow> bool" where
  "isMobile innerWidth breakpoint = (innerWidth \<le> breakpoint)"

definition getTickCount :: "bool \<Rightarrow> nat" where
  "getTickCount mobile = (if mobile then 4 else 6)"

text \<open>
  A style object is a finite map from property names to numbers; the spread
  \<open>{ ...baseStyle, ...mobileStyle }\<close> is the base overridden by the mobile entries.
\<close>

type_synonym style = "string \<rightharpoonup> rat"

definition getResponsiveLineStyle :: "style \<Rightarrow> style \<Rightarrow> bool \<Rightarrow> style" where
  "getResponsiveLineStyle baseStyle mobileStyle mobile =
     (if mobile then baseStyle ++ mobileStyle else baseStyle)"

section \<open>config.js\<close>

record chartConfig =
  width :: rat
  height :: rat

definition CHART_CONFIG_width :: rat where
  "CHART_CONFIG_width = 720"

definition CHART_CONFIG_height :: rat where
  "CHART_CONFIG_height = 400"

definition margin_top :: rat where
  "margin_top = 56"

definition margin_right :: rat where
  "margin_right = 92"

definition margin_bottom :: rat where
  "margin_bottom = 65"

definition margin_left :: rat where
  "margin_left = 56"

definition BREAKPOINTS_mobile :: int where
  "BREAKPOINTS_mobile = 480"

definition LINE_STYLES_deaths :: style where
  "LINE_STYLES_deaths = [''strokeWidth'' \<mapsto> 18 / 10, ''strokeOpacity'' \<mapsto> 8 / 10]"

definition LINE_STYLES_vaccination :: style where
  "LINE_STYLES_vaccination = [''strokeWidth'' \<mapsto> 18 / 10, ''strokeOpacity'' \<mapsto> 8 / 10]"

definition LINE_STYLES_mobile_deaths :: style where
  "LINE_STYLES_mobile_deaths = [''strokeWidth'' \<mapsto> 15 / 10, ''strokeOpacity'' \<mapsto> 75 / 100]"

text \<open>
  A label is one string or an array of lines. The texts of the tables are written
  without their accents.
\<close>

datatype label = Single string | Lines "string list"

record milestone =
  m_date :: string
  m_label :: label
  m_style :: string
  m_strokeWidth :: rat
  m_dashArray :: string
  m_yOffset :: rat

text \<open>\<open>MILESTONES\<close> of the first configuration (three entries, one-line labels).\<close>

definition MILESTONES :: "milestone list" where
  "MILESTONES =
     [\<lparr> m_date = ''2021-02-03'', m_label = Single ''Inicio de vacunacion'',
        m_style = ''primary'', m_strokeWidth = 1, m_dashArray = ''2,3'', m_yOffset = - 30 \<rparr>,
      \<lparr> m_date = ''2021-08-11'', m_label = Single ''Inicio de refuerzo'',
        m_style = ''secondary'', m_strokeWidth = 1, m_dashArray = ''2,3'', m_yOffset = - 45 \<rparr>,
      \<lparr> m_date = ''2022-01-15'', m_label = Single ''Ola Omicron'',
        m_style = ''tertiary'', m_strokeWidth = 1, m_dashArray = ''2,3'', m_yOffset = - 30 \<rparr>]"

text \<open>\<open>MILESTONES\<close> of the second configuration (two entries, two-line labels).\<close>

definition MILESTONES2 :: "milestone list" where
  "MILESTONES2 =
     [\<lparr> m_date = ''2021-02-03'', m_label = Lines [''Inicio'', ''Vacunacion''],
        m_style = ''primary'', m_strokeWidth = 1, m_dashArray = ''2,3'', m_yOffset = - 40 \<rparr>,
      \<lparr> m_date = ''2021-08-11'', m_label = Lines [''Inicio'', ''Refuerzo''],
        m_style = ''secondary'', m_strokeWidth = 1, m_dashArray = ''2,3'', m_yOffset = - 40 \<rparr>]"

record annotation =
  a_lines :: label
  a_date :: string

definition omicronAnnotation :: annotation where
  "omicronAnnotation =
     \<lparr> a_lines = Lines [''La nueva cepa Omicron,'', ''altamente contagiosa y'',
                          ''con multiples mutaciones''],
       a_date = ''2022-03-01'' \<rparr>"

record comment =
  c_id :: string
  c_date :: "string option"
  c_dateRange :: "string list option"
  c_yType :: string
  c_yValue :: rat
  c_anchor :: "string option"
  c_dx :: "rat option"
  c_dy :: "rat option"
  c_lines :: label

definition COMMENTS :: "comment list" where
  "COMMENTS =
     [\<lparr> c_id = ''yellow'', c_date = Some ''2020-07-15'', c_dateRange = None,
        c_yType = ''left'', c_yValue = 24, c_anchor = Some ''start'',
        c_dx = Some 0, c_dy = Some 0,
        c_lines = Lines [''Cuarentena total'', ''generalizada''] \<rparr>,
      \<lparr> c_id = ''blue'', c_date = Some ''2021-03-15'', c_dateRange = None,
        c_yType = ''left'', c_yValue = 135, c_anchor = Some ''middle'',
        c_dx = Some 0, c_dy = Some (- 10),
        c_lines = Lines [''Baja vacunacion'', ''y cepa Gamma''] \<rparr>,
      \<lparr> c_id = ''violet'', c_date = Some ''2021-11-10'', c_dateRange = None,
        c_yType = ''left'', c_yValue = 90, c_anchor = Some ''middle'',
        c_dx = Some 0, c_dy = Some 6,
        c_lines = Lines [''40-60% con 1 dosis'', ''e inmunidad natural''] \<rparr>]"

definition labels_deaths :: string where
  "labels_deaths = ''Fallecidos (promedio 7 dias)''"

definition labels_deaths2 :: string where
  "labels_deaths2 = ''Fallecidos (a 7 dias)''"

definition labels_vaccination :: string where
  "labels_vaccination = ''% Vacunados''"

section \<open>Scales\<close>

text \<open>
  A coordinate is a finite number, or \<open>None\<close> when the JavaScript value is
  \<open>undefined\<close>, \<open>NaN\<close> or infinite. A d3 continuous scale answers \<open>undefined\<close> to
  \<open>null\<close> and to \<open>NaN\<close>; otherwise it interpolates the range linearly over the
  normalised position in the domain, without clamping. On a domain of zero span d3's
  \<open>normalize\<close> is the constant one half.
\<close>

type_synonym coord = "rat option"

definition normalizeD :: "rat \<Rightarrow> rat \<Rightarrow> rat \<Rightarrow> rat" where
  "normalizeD a b x = (if b - a = 0 then 1 / 2 else (x - a) / (b - a))"

definition interpolateNumber :: "rat \<Rightarrow> rat \<Rightarrow> rat \<Rightarrow> rat" where
  "interpolateNumber a b t = a * (1 - t) + b * t"

definition bimap :: "rat \<times> rat \<Rightarrow> rat \<times> rat \<Rightarrow> rat \<Rightarrow> rat" where
  "bimap dm rg x =
     (case dm of (d0, d1) \<Rightarrow> (case rg of (r0, r1) \<Rightarrow>
        if d1 < d0 then interpolateNumber r1 r0 (normalizeD d1 d0 x)
        else interpolateNumber r0 r1 (normalizeD d0 d1 x)))"

definition scaleLinear :: "(rat \<times> rat) option \<Rightarrow> rat \<times> rat \<Rightarrow> jsnum \<Rightarrow> coord" where
  "scaleLinear dm rg v =
     (case dm of
        None \<Rightarrow> None
      | Some d \<Rightarrow> (case v of Num x \<Rightarrow> Some (bimap d rg x) | _ \<Rightarrow> None))"

definition scaleTime :: "(rat \<times> rat) option \<Rightarrow> rat \<times> rat \<Rightarrow> jsdate option \<Rightarrow> coord" where
  "scaleTime dm rg v =
     (case v of
        None \<Rightarrow> None
      | Some d \<Rightarrow> scaleLinear dm rg (Num (of_int (getTime d))))"

text \<open>
  \<open>d3.extent(data, d => d.date)\<close> skips \<open>null\<close>; \<open>d3.max(data, d => d.deaths_7d)\<close>
  skips \<open>NaN\<close>. Without a finite maximum the left scale has no finite domain.
\<close>

definition extent :: "dataPoint list \<Rightarrow> (rat \<times> rat) option" where
  "extent data =
     (case List.map_filter (\<lambda>d. map_option (\<lambda>t. of_int (getTime t)) (date d)) data of
        [] \<Rightarrow> None
      | t # ts \<Rightarrow> Some (fold min ts t, fold max ts t))"

definition d3max :: "dataPoint list \<Rightarrow> rat option" where
  "d3max data =
     (if list_ex (\<lambda>d. deaths_7d d = PosInf) data then None
      else (case List.map_filter (\<lambda>d. case deaths_7d d of Num r \<Rightarrow> Some r | _ \<Rightarrow> None) data of
              [] \<Rightarrow> None
            | r # rs \<Rightarrow> Some (fold max rs r)))"

record scales =
  xScale :: "jsdate option \<Rightarrow> coord"
  yLeftScale :: "jsnum \<Rightarrow> coord"
  yRightScale :: "jsnum \<Rightarrow> coord"

text \<open>
  \<open>buildScales\<close>. The rounding of the upper end of the left domain by \<open>.nice()\<close> is
  d3's and is the parameter \<open>nice\<close>.
\<close>

definition buildScales :: "(rat \<Rightarrow> rat) \<Rightarrow> dataPoint list \<Rightarrow> chartConfig \<Rightarrow> scales" where
  "buildScales nice data config =
     \<lparr> xScale = scaleTime (extent data) (0, width config),
       yLeftScale = scaleLinear (map_option (\<lambda>m. (0, nice m)) (d3max data)) (height config, 0),
       yRightScale = scaleLinear (Some (0, 100)) (height config, 0) \<rparr>"

section \<open>Drawing primitives\<close>

text \<open>
  What the draw routines append to the SVG group, with the coordinates and the
  attributes the properties below read; colours, fonts and dash patterns are left out.
  \<^item> \<open>Axis cls ticks fmt tx ty\<close>: a group of class \<open>cls\<close> translated by \<open>(tx, ty)\<close> on
    which a d3 axis is called with \<open>.ticks(ticks)\<close> and the tick format named \<open>fmt\<close>;
    the tick marks d3 derives from the scale are not expanded.
  \<^item> \<open>Path cls sw so runs\<close>: a path with stroke width \<open>sw\<close> and opacity \<open>so\<close> whose
    \<open>d\<close> attribute a d3 line generator draws through \<open>runs\<close>, one curve per run.
  \<^item> \<open>Line cls x1 y1 x2 y2\<close> and \<open>TextEl cls x y anchor content\<close>.
  \<^item> \<open>Group cls children\<close>, \<open>GroupAt cls tx ty children\<close> (with a translation),
    \<open>Defs children\<close> and \<open>Marker id\<close>.
\<close>

datatype prim =
    Axis string nat string rat rat
  | Path string "rat option" "rat option" "(coord \<times> coord) list list"
  | Line string coord coord coord coord
  | TextEl string coord coord string string
  | Group string "prim list"
  | GroupAt string coord coord "prim list"
  | Defs "prim list"
  | Marker string

text \<open>
  \<open>svg.select(selector)\<close> is the first descendant that matches, in document order;
  \<open>.empty()\<close> tells that there is none, and \<open>.append\<close> on an empty selection does
  nothing.
\<close>

fun hasElement :: "(prim \<Rightarrow> bool) \<Rightarrow> prim \<Rightarrow> bool" where
  "hasElement P (Group c ps) = (P (Group c ps) \<or> list_ex (hasElement P) ps)"
| "hasElement P (GroupAt c x y ps) = (P (GroupAt c x y ps) \<or> list_ex (hasElement P) ps)"
| "hasElement P (Defs ps) = (P (Defs ps) \<or> list_ex (hasElement P) ps)"
| "hasElement P p = P p"

definition selectEmpty :: "(prim \<Rightarrow> bool) \<Rightarrow> prim list \<Rightarrow> bool" where
  "selectEmpty P svg = (\<not> list_ex (hasElement P) svg)"

definition isDefs :: "prim \<Rightarrow> bool" where
  "isDefs p = (case p of Defs _ \<Rightarrow> True | _ \<Rightarrow> False)"

definition isMarker :: "string \<Rightarrow> prim \<Rightarrow> bool" where
  "isMarker ident p = (p = Marker ident)"

fun appendToDefs :: "prim \<Rightarrow> prim \<Rightarrow> prim option"
  and appendToDefsList :: "prim \<Rightarrow> prim list \<Rightarrow> prim list option" where
  "appendToDefs m (Defs ps) = Some (Defs (ps @ [m]))"
| "appendToDefs m (Group c ps) = map_option (Group c) (appendToDefsList m ps)"
| "appendToDefs m (GroupAt c x y ps) = map_option (GroupAt c x y) (appendToDefsList m ps)"
| "appendToDefs m (Axis c n f x y) = None"
| "appendToDefs m (Path c sw so rs) = None"
| "appendToDefs m (Line c x1 y1 x2 y2) = None"
| "appendToDefs m (TextEl c x y a s) = None"
| "appendToDefs m (Marker i) = None"
| "appendToDefsList m [] = None"
| "appendToDefsList m (p # ps) =
     (case appendToDefs m p of
        Some p' \<Rightarrow> Some (p' # ps)
      | None \<Rightarrow> map_option ((#) p) (appendToDefsList m ps))"

definition selectDefsAppend :: "prim \<Rightarrow> prim list \<Rightarrow> prim list" where
  "selectDefsAppend m svg = (case appendToDefsList m svg of None \<Rightarrow> svg | Some svg' \<Rightarrow> svg')"

section \<open>The draw routines\<close>

text \<open>
  Each routine takes the children of the group it draws into and returns them with what
  it appended. Where the two chart modules differ, the routine of the second one has the
  suffix 2. \<open>innerWidth\<close> is \<open>window.innerWidth\<close> at the time of the call.
\<close>

definition drawAxes :: "prim list \<Rightarrow> scales \<Rightarrow> chartConfig \<Rightarrow> int \<Rightarrow> prim list" where
  "drawAxes svg sc config innerWidth =
     (let mobile = isMobile innerWidth BREAKPOINTS_mobile
      in svg @ [Axis ''axis axis--x'' (getTickCount mobile) ''formatAxisDate'' 0 (height config),
                Axis ''axis axis--left'' 6 [] 0 0,
                Axis ''axis axis--right'' 5 ''formatPercentage'' (width config) 0])"

definition drawAxes2 :: "prim list \<Rightarrow> scales \<Rightarrow> chartConfig \<Rightarrow> int \<Rightarrow> prim list" where
  "drawAxes2 svg sc config innerWidth =
     (let mobile = isMobile innerWidth BREAKPOINTS_mobile
      in svg @ [Axis ''axis axis--x'' (getTickCount mobile) ''formatAxisDate'' 0 (height config),
                Axis ''axis axis--left'' 5 [] 0 0,
                Axis ''axis axis--right'' 4 ''formatPercentage'' (width config) 0])"

text \<open>
  A d3 line generator walks the data once: a datum that is not \<open>defined\<close> ends the
  current run, the next defined one starts a new run, and only defined data become
  points. \<open>cur\<close> is the run in progress (empty when no run is open).
\<close>

fun lineRuns :: "('a \<Rightarrow> bool) \<Rightarrow> 'a list \<Rightarrow> 'a list \<Rightarrow> 'a list list" where
  "lineRuns defd [] cur = (if cur = [] then [] else [cur])"
| "lineRuns defd (d # ds) cur =
     (if defd d then lineRuns defd ds (cur @ [d])
      else (if cur = [] then [] else [cur]) @ lineRuns defd ds [])"

definition d3line ::
  "('a \<Rightarrow> bool) \<Rightarrow> ('a \<Rightarrow> coord) \<Rightarrow> ('a \<Rightarrow> coord) \<Rightarrow> 'a list \<Rightarrow> (coord \<times> coord) list list" where
  "d3line defd fx fy data = map (map (\<lambda>d. (fx d, fy d))) (lineRuns defd data [])"

definition definedDeaths :: "dataPoint \<Rightarrow> bool" where
  "definedDeaths d = (date d \<noteq> None \<and> \<not> isNaN (deaths_7d d) \<and> isFinite (deaths_7d d))"

definition definedVaccination :: "dataPoint \<Rightarrow> bool" where
  "definedVaccination d =
     (date d \<noteq> None \<and> \<not> isNaN (vaccinated_pct d) \<and> isFinite (vaccinated_pct d))"

definition deathsLine :: "scales \<Rightarrow> dataPoint list \<Rightarrow> (coord \<times> coord) list list" where
  "deathsLine sc =
     d3line definedDeaths (\<lambda>d. xScale sc (date d)) (\<lambda>d. yLeftScale sc (deaths_7d d))"

definition vaccinationLine :: "scales \<Rightarrow> dataPoint list \<Rightarrow> (coord \<times> coord) list list" where
  "vaccinationLine sc =
     d3line definedVaccination (\<lambda>d. xScale sc (date d)) (\<lambda>d. yRightScale sc (vaccinated_pct d))"

definition drawLines ::
  "prim list \<Rightarrow> dataPoint list \<Rightarrow> scales \<Rightarrow> chartConfig \<Rightarrow> int \<Rightarrow> prim list" where
  "drawLines svg data sc config innerWidth =
     (let mobile = isMobile innerWidth BREAKPOINTS_mobile;
          deathsStyle = getResponsiveLineStyle LINE_STYLES_deaths LINE_STYLES_mobile_deaths mobile
      in svg @
         [Path ''line line--deaths'' (deathsStyle ''strokeWidth'') (deathsStyle ''strokeOpacity'')
            (deathsLine sc data),
          Path ''line line--vaccination'' (LINE_STYLES_vaccination ''strokeWidth'')
            (LINE_STYLES_vaccination ''strokeOpacity'') (vaccinationLine sc data)])"

text \<open>\<open>x >= 0 && x <= width\<close>; both comparisons are false on \<open>undefined\<close>.\<close>

definition inRange :: "coord \<Rightarrow> rat \<Rightarrow> bool" where
  "inRange x w = (case x of None \<Rightarrow> False | Some v \<Rightarrow> 0 \<le> v \<and> v \<le> w)"

definition labelText :: "label \<Rightarrow> string" where
  "labelText l =
     (case l of
        Single s \<Rightarrow> s
      | Lines ls \<Rightarrow> (case ls of [] \<Rightarrow> [] | x # xs \<Rightarrow> x @ concat (map (\<lambda>y. '','' @ y) xs)))"

text \<open>The body of \<open>MILESTONES.forEach\<close> in the first chart module.\<close>

definition drawMilestone :: "scales \<Rightarrow> chartConfig \<Rightarrow> milestone \<Rightarrow> prim list \<Rightarrow> prim list" where
  "drawMilestone sc config m svg =
     (let milestoneDate = timeParse (m_date m);
          x = xScale sc milestoneDate
      in if inRange x (width config) then
           (let svg1 = svg @
                  [Line (''milestone milestone--'' @ m_style m) x (Some 0) x (Some (height config)),
                   GroupAt ''milestone-label'' x (Some (m_yOffset m))
                     [TextEl ''milestone-text'' (Some 0) (Some 0) ''middle'' (labelText (m_label m)),
                      Line [] (Some 0) (Some 5) (Some 0) (Some 15)]]
            in if selectEmpty (isMarker ''milestone-arrow'') svg1
               then selectDefsAppend (Marker ''milestone-arrow'') svg1
               else svg1)
         else svg)"

definition addMilestones ::
  "milestone list \<Rightarrow> prim list \<Rightarrow> scales \<Rightarrow> chartConfig \<Rightarrow> prim list" where
  "addMilestones ms svg sc config =
     fold (drawMilestone sc config) ms (if selectEmpty isDefs svg then svg @ [Defs []] else svg)"

text \<open>The same in the second chart module: a label that is an array is stacked.\<close>

definition milestoneLabel :: "label \<Rightarrow> prim list" where
  "milestoneLabel l =
     (case l of
        Lines ls \<Rightarrow>
          map (\<lambda>(index, ln). TextEl ''milestone-text'' (Some 0) (Some (of_nat index * 12)) ''middle'' ln)
            (enumerate 0 ls)
      | Single s \<Rightarrow> [TextEl ''milestone-text'' (Some 0) (Some 0) ''middle'' s])"

definition arrowYStart :: "label \<Rightarrow> rat" where
  "arrowYStart l = (case l of Lines ls \<Rightarrow> of_nat (length ls) * 12 + 3 | Single s \<Rightarrow> 8)"

definition drawMilestone2 :: "scales \<Rightarrow> chartConfig \<Rightarrow> milestone \<Rightarrow> prim list \<Rightarrow> prim list" where
  "drawMilestone2 sc config m svg =
     (let milestoneDate = timeParse (m_date m);
          x = xScale sc milestoneDate
      in if inRange x (width config) then
           (let svg1 = svg @
                  [Line (''milestone milestone--'' @ m_style m) x (Some 0) x (Some (height config)),
                   GroupAt ''milestone-label'' x (Some (m_yOffset m))
                     (milestoneLabel (m_label m) @
                      [Line [] (Some 0) (Some (arrowYStart (m_label m)))
                         (Some 0) (Some (arrowYStart (m_label m) + 10))])]
            in if selectEmpty (isMarker ''milestone-arrow'') svg1
               then selectDefsAppend (Marker ''milestone-arrow'') svg1
               else svg1)
         else svg)"

definition addMilestones2 ::
  "milestone list \<Rightarrow> prim list \<Rightarrow> scales \<Rightarrow> chartConfig \<Rightarrow> prim list" where
  "addMilestones2 ms svg sc config =
     fold (drawMilestone2 sc config) ms (if selectEmpty isDefs svg then svg @ [Defs []] else svg)"

text \<open>\<open>addDirectLabels\<close>: a legend block in the first module, end-of-line labels in the second.\<close>

definition sourceFootnote :: string where
  "sourceFootnote =
     ''Fuente: MinCiencia y MINSAL - DP37, DP77, DP10. Cobertura maxima alcanzada: ~90% de la poblacion.''"

definition addDirectLabels ::
  "prim list \<Rightarrow> dataPoint list \<Rightarrow> scales \<Rightarrow> chartConfig \<Rightarrow> prim list" where
  "addDirectLabels svg data sc config =
     (if length data = 0 then svg
      else svg @
        [GroupAt ''legend'' (Some (width config - 160)) (Some (- 35))
           [Line [] (Some 0) (Some 0) (Some 20) (Some 0),
            TextEl ''legend-text'' (Some 25) (Some 4) [] labels_deaths,
            Line [] (Some 0) (Some 15) (Some 20) (Some 15),
            TextEl ''legend-text'' (Some 25) (Some 19) [] labels_vaccination],
         TextEl ''source-footnote'' (Some 0) (Some (height config + 35)) [] sourceFootnote])"

definition addTo :: "coord \<Rightarrow> rat \<Rightarrow> coord" where
  "addTo c k = map_option (\<lambda>v. v + k) c"

definition addDirectLabels2 ::
  "prim list \<Rightarrow> dataPoint list \<Rightarrow> scales \<Rightarrow> chartConfig \<Rightarrow> prim list" where
  "addDirectLabels2 svg data sc config =
     (if length data = 0 then svg
      else
        (let lastDataPoint = last data;
             labelX = width config - 5;
             deathsY = yLeftScale sc (deaths_7d lastDataPoint);
             vaccinationY = yRightScale sc (vaccinated_pct lastDataPoint)
         in svg @
            [TextEl ''source-footnote'' (Some 0) (Some (height config + 35)) []
               ''Fuente: MinCiencia y MINSAL.'',
             Group ''direct-label deaths-label''
               [TextEl [] (Some labelX) (addTo deathsY (- 35)) ''end'' labels_deaths2],
             Group ''direct-label vaccination-label''
               [TextEl [] (Some labelX) (addTo vaccinationY (- 5)) ''end'' labels_vaccination]]))"

text \<open>
  \<open>addAnnotations\<close> of the second module (the first module never calls its own). The
  body of \<open>COMMENTS.forEach\<close> is \<open>drawComment\<close>.
\<close>

definition labelLines :: "label \<Rightarrow> string list" where
  "labelLines l = (case l of Lines ls \<Rightarrow> ls | Single s \<Rightarrow> [s])"

definition truthy :: "string option \<Rightarrow> bool" where
  "truthy v = (case v of None \<Rightarrow> False | Some s \<Rightarrow> s \<noteq> [])"

definition orZero :: "rat option \<Rightarrow> rat" where
  "orZero v = (case v of None \<Rightarrow> 0 | Some k \<Rightarrow> k)"

definition commentX :: "scales \<Rightarrow> comment \<Rightarrow> coord" where
  "commentX sc c =
     (if truthy (c_date c) then xScale sc (timeParseField (c_date c))
      else (case c_dateRange c of
              Some [a, b] \<Rightarrow>
                (case (xScale sc (timeParse a), xScale sc (timeParse b)) of
                   (Some x1, Some x2) \<Rightarrow> Some ((x1 + x2) / 2)
                 | _ \<Rightarrow> None)
            | _ \<Rightarrow> None))"

definition drawComment :: "scales \<Rightarrow> comment \<Rightarrow> prim list \<Rightarrow> prim list" where
  "drawComment sc c svg =
     (let x = commentX sc c;
          yScale = (if c_yType c = ''right'' then yRightScale sc else yLeftScale sc);
          y = yScale (Num (c_yValue c));
          xText = addTo x (orZero (c_dx c));
          yText = addTo y (orZero (c_dy c))
      in svg @
         [Group (''comment comment--'' @ c_id c)
            (map (\<lambda>(i, ln). TextEl [] xText (addTo yText (of_nat i * 12))
                    (case c_anchor c of None \<Rightarrow> ''start'' | Some a \<Rightarrow> if a = [] then ''start'' else a) ln)
               (enumerate 0 (labelLines (c_lines c))))])"

definition addAnnotations2 ::
  "annotation \<Rightarrow> comment list \<Rightarrow> prim list \<Rightarrow> dataPoint list \<Rightarrow> scales \<Rightarrow> chartConfig \<Rightarrow> prim list" where
  "addAnnotations2 omicron comments svg data sc config =
     (let svg1 = (if selectEmpty (isMarker ''arrowhead'') svg
                  then selectDefsAppend (Marker ''arrowhead'') svg else svg);
          omicronDate = timeParse (a_date omicron);
          omicronX = xScale sc omicronDate;
          omicronData = find (\<lambda>d. formatYmd (date d) = a_date omicron) data;
          omicronDeathsY = (case omicronData of
                              Some d \<Rightarrow> yLeftScale sc (deaths_7d d)
                            | None \<Rightarrow> Some (height config * (3 / 10)));
          omicronY = addTo omicronDeathsY (- 3);
          arrowY = omicronDeathsY;
          svg2 = svg1 @
            [Group ''omicron-annotation''
               (map (\<lambda>(index, ln). TextEl [] (addTo omicronX 35) (addTo omicronY (of_nat index * 12))
                                    ''start'' ln)
                  (enumerate 0 (labelLines (a_lines omicron))) @
                [Line [] (addTo omicronX 35) arrowY omicronX arrowY])]
      in fold (drawComment sc) comments svg2)"

section \<open>The page: initChart and the resize handler\<close>

text \<open>
  The state the two entry points share: the children of \<open>#chart-root\<close>, the HTML that
  replaced the content of \<open>#chart-container\<close> (if any), the module variable
  \<open>chartData\<close> (\<open>None\<close> while unset), the number of resize listeners, and the
  \<open>shortMonths\<close> of d3's default locale.
\<close>

record page =
  chartRoot :: "prim list"
  containerHtml :: "string option"
  chartData :: "dataPoint list option"
  resizeListeners :: nat
  shortMonths :: "string list"

definition errorMessage :: string where
  "errorMessage = ''Error cargando datos. Verificar que assets/data.csv existe.''"

definition chartDimensions :: chartConfig where
  "chartDimensions =
     \<lparr> width = CHART_CONFIG_width - margin_left - margin_right,
       height = CHART_CONFIG_height - margin_top - margin_bottom \<rparr>"

text \<open>The block under \<open>// Build chart\<close>, drawn into a new, empty group.\<close>

definition buildChart :: "(rat \<Rightarrow> rat) \<Rightarrow> int \<Rightarrow> dataPoint list \<Rightarrow> prim" where
  "buildChart nice innerWidth data =
     (let config = chartDimensions;
          sc = buildScales nice data config;
          g1 = drawAxes [] sc config innerWidth;
          g2 = drawLines g1 data sc config innerWidth;
          g3 = addMilestones MILESTONES g2 sc config;
          g4 = addDirectLabels g3 data sc config
      in GroupAt [] (Some margin_left) (Some margin_top) g4)"

definition buildChart2 :: "(rat \<Rightarrow> rat) \<Rightarrow> int \<Rightarrow> dataPoint list \<Rightarrow> prim" where
  "buildChart2 nice innerWidth data =
     (let config = chartDimensions;
          sc = buildScales nice data config;
          g1 = drawAxes2 [] sc config innerWidth;
          g2 = drawLines g1 data sc config innerWidth;
          g3 = addMilestones2 MILESTONES2 g2 sc config;
          g4 = addDirectLabels2 g3 data sc config;
          g5 = addAnnotations2 omicronAnnotation COMMENTS g4 data sc config
      in GroupAt [] (Some margin_left) (Some margin_top) g5)"

text \<open>
  The function that \<open>makeResponsive\<close> debounces: clear \<open>#chart-root\<close>, and redraw when
  \<open>chartData\<close> is set and not empty.
\<close>

definition resizeChart :: "(rat \<Rightarrow> rat) \<Rightarrow> int \<Rightarrow> page \<Rightarrow> page" where
  "resizeChart nice innerWidth pg =
     (case chartData pg of
        None \<Rightarrow> pg\<lparr> chartRoot := [] \<rparr>
      | Some data \<Rightarrow>
          if 0 < length data then pg\<lparr> chartRoot := [buildChart nice innerWidth data] \<rparr>
          else pg\<lparr> chartRoot := [] \<rparr>)"

definition resizeChart2 :: "(rat \<Rightarrow> rat) \<Rightarrow> int \<Rightarrow> page \<Rightarrow> page" where
  "resizeChart2 nice innerWidth pg =
     (case chartData pg of
        None \<Rightarrow> pg\<lparr> chartRoot := [] \<rparr>
      | Some data \<Rightarrow>
          if 0 < length data then pg\<lparr> chartRoot := [buildChart2 nice innerWidth data] \<rparr>
          else pg\<lparr> chartRoot := [] \<rparr>)"

definition makeResponsive :: "page \<Rightarrow> page" where
  "makeResponsive pg = pg\<lparr> resizeListeners := resizeListeners pg + 1 \<rparr>"

text \<open>
  \<open>initChart\<close>. \<open>fetched\<close> is the outcome of \<open>d3.csv\<close>: the rows, or a rejection. The
  \<open>catch\<close> block replaces the content of the container by the message. \<open>chartData\<close>
  is assigned before the test that throws.
\<close>

definition initChart :: "(rat \<Rightarrow> rat) \<Rightarrow> int \<Rightarrow> error + rawRow list \<Rightarrow> page \<Rightarrow> page" where
  "initChart nice innerWidth fetched pg =
     (case fetched of
        Inl e \<Rightarrow> pg\<lparr> containerHtml := Some errorMessage \<rparr>
      | Inr rawData \<Rightarrow>
          (case loadData rawData of
             Inl e \<Rightarrow> pg\<lparr> chartData := Some (processData rawData), containerHtml := Some errorMessage \<rparr>
           | Inr data \<Rightarrow>
               makeResponsive
                 (pg\<lparr> chartData := Some data,
                      chartRoot := chartRoot pg @ [buildChart nice innerWidth data] \<rparr>)))"

definition initChart2 :: "(rat \<Rightarrow> rat) \<Rightarrow> int \<Rightarrow> error + rawRow list \<Rightarrow> page \<Rightarrow> page" where
  "initChart2 nice innerWidth fetched pg =
     (let pg0 = pg\<lparr> shortMonths := shortMonths_es \<rparr>
      in case fetched of
           Inl e \<Rightarrow> pg0\<lparr> containerHtml := Some errorMessage \<rparr>
         | Inr rawData \<Rightarrow>
             (case loadData rawData of
                Inl e \<Rightarrow>
                  pg0\<lparr> chartData := Some (processData rawData), containerHtml := Some errorMessage \<rparr>
              | Inr data \<Rightarrow>
                  makeResponsive
                    (pg0\<lparr> chartData := Some data,
                          chartRoot := chartRoot pg0 @ [buildChart2 nice innerWidth data] \<rparr>)))"

definition emptyPage :: page where
  "emptyPage =
     \<lparr> chartRoot = [], containerHtml = None, chartData = None, resizeListeners = 0,
       shortMonths = shortMonths_en \<rparr>"

section \<open>debounce\<close>

text \<open>
  The host's timers and the closure of \<open>debounce\<close>: the clock, the next timer id, the
  pending timers (id, due time and the arguments \<open>later\<close> closed over), the closure
  variable \<open>timeout\<close> (\<open>None\<close> is \<open>undefined\<close>) and the calls of \<open>func\<close> so far, each
  with its time and arguments.
\<close>

record 'a timers =
  now :: nat
  nextId :: nat
  pending :: "(nat \<times> nat \<times> 'a) list"
  timeout :: "nat option"
  calls :: "(nat \<times> 'a) list"

definition clearTimeout :: "nat option \<Rightarrow> 'a timers \<Rightarrow> 'a timers" where
  "clearTimeout ident st =
     (case ident of
        None \<Rightarrow> st
      | Some i \<Rightarrow> st\<lparr> pending := filter (\<lambda>(j, due, args). j \<noteq> i) (pending st) \<rparr>)"

definition setTimeout :: "'a \<Rightarrow> nat \<Rightarrow> 'a timers \<Rightarrow> nat \<times> 'a timers" where
  "setTimeout args wait st =
     (nextId st,
      st\<lparr> pending := pending st @ [(nextId st, now st + wait, args)], nextId := nextId st + 1 \<rparr>)"

text \<open>\<open>later\<close>, the callback of the timer, and \<open>executedFunction\<close>, the debounced function.\<close>

definition later :: "'a \<Rightarrow> 'a timers \<Rightarrow> 'a timers" where
  "later args st =
     (let st1 = clearTimeout (timeout st) st
      in st1\<lparr> calls := calls st1 @ [(now st1, args)] \<rparr>)"

definition executedFunction :: "nat \<Rightarrow> 'a \<Rightarrow> 'a timers \<Rightarrow> 'a timers" where
  "executedFunction wait args st =
     (let st1 = clearTimeout (timeout st) st
      in case setTimeout args wait st1 of (i, st2) \<Rightarrow> st2\<lparr> timeout := Some i \<rparr>)"

text \<open>
  The event loop: a pending timer fires at its due time, once; \<open>runUntil t\<close> fires the
  timers due by \<open>t\<close> in the order of their due times, and \<open>settle\<close> fires all that
  are left. A burst of resize events is a list of times and arguments; each event is
  handled after the timers that were due by its time.
\<close>

definition fire :: "nat \<times> nat \<times> 'a \<Rightarrow> 'a timers \<Rightarrow> 'a timers" where
  "fire tm st =
     (case tm of (i, due, args) \<Rightarrow>
        if tm \<in> set (pending st)
        then later args (st\<lparr> now := max (now st) due, pending := removeAll tm (pending st) \<rparr>)
        else st)"

definition runUntil :: "nat \<Rightarrow> 'a timers \<Rightarrow> 'a timers" where
  "runUntil t st =
     (let st1 = fold fire (sort_key (\<lambda>(i, due, args). due)
                             (filter (\<lambda>(i, due, args). due \<le> t) (pending st))) st
      in st1\<lparr> now := max (now st1) t \<rparr>)"

definition settle :: "'a timers \<Rightarrow> 'a timers" where
  "settle st = fold fire (sort_key (\<lambda>(i, due, args). due) (pending st)) st"

fun resizeEvents :: "nat \<Rightarrow> (nat \<times> 'a) list \<Rightarrow> 'a timers \<Rightarrow> 'a timers" where
  "resizeEvents wait [] st = st"
| "resizeEvents wait ((t, args) # es) st =
     resizeEvents wait es (executedFunction wait args (runUntil t st))"

definition noTimers :: "'a timers" where
  "noTimers = \<lparr> now = 0, nextId = 1, pending = [], timeout = None, calls = [] \<rparr>"

definition debounced :: "nat \<Rightarrow> (nat \<times> 'a) list \<Rightarrow> (nat \<times> 'a) list" where
  "debounced wait es = calls (settle (resizeEvents wait es noTimers))"

text \<open>
  A burst: the times do not decrease and every event comes less than \<open>wait\<close> after
  the one before.
\<close>

fun burst :: "nat \<Rightarrow> (nat \<times> 'a) list \<Rightarrow> bool" where
  "burst wait [] = True"
| "burst wait [e] = True"
| "burst wait (e1 # e2 # es) =
     (fst e1 \<le> fst e2 \<and> fst e2 < fst e1 + wait \<and> burst wait (e2 # es))"

definition resizeWait :: nat where
  "resizeWait = 250"

section \<open>Inputs and the properties of the specification\<close>

text \<open>
  The CSV of the scenario: the rows of 2020-12-24 to 2020-12-31 with an empty
  \<open>deaths_7d\<close> field, then \<open>2021-01-01,10,10.13\<close>.
\<close>

definition csvRow :: "string \<Rightarrow> string \<Rightarrow> string \<Rightarrow> rawRow" where
  "csvRow d x v = \<lparr> raw_date = Some d, raw_deaths_7d = Some x, raw_vaccinated_pct = Some v \<rparr>"

definition csvScenario :: "rawRow list" where
  "csvScenario =
     [csvRow ''2020-12-24'' [] ''0.1'',
      csvRow ''2020-12-25'' [] ''0.2'',
      csvRow ''2020-12-26'' [] ''0.4'',
      csvRow ''2020-12-27'' [] ''0.7'',
      csvRow ''2020-12-28'' [] ''1.2'',
      csvRow ''2020-12-29'' [] ''2.1'',
      csvRow ''2020-12-30'' [] ''3.8'',
      csvRow ''2020-12-31'' [] ''6.2'',
      csvRow ''2021-01-01'' ''10'' ''10.13'']"

text \<open>A row with a negative count and a percentage above 100, and a row that is not a number.\<close>

definition csvOutOfRange :: "rawRow list" where
  "csvOutOfRange = [csvRow ''2021-01-01'' ''-5'' ''150'']"

definition csvNotANumber :: "rawRow list" where
  "csvNotANumber = [csvRow ''2020-12-31'' ''NA'' ''6.2'', csvRow ''2021-01-01'' ''10'' ''10.13'']"

text \<open>A row that is not a number between two rows that are.\<close>

definition csvGap :: "rawRow list" where
  "csvGap =
     [csvRow ''2020-12-30'' ''10'' ''3.8'',
      csvRow ''2020-12-31'' ''NA'' ''6.2'',
      csvRow ''2021-01-01'' ''10'' ''10.13'']"

text \<open>Rows out of order, the last one a duplicate.\<close>

definition csvUnsorted :: "rawRow list" where
  "csvUnsorted =
     [csvRow ''2021-01-02'' ''10'' ''10.13'',
      csvRow ''2021-01-01'' ''10'' ''10.13'',
      csvRow ''2021-01-01'' ''10'' ''10.13'']"

text \<open>A single row: a time domain of zero span.\<close>

definition csvSingle :: "rawRow list" where
  "csvSingle = [csvRow ''2021-01-01'' ''10'' ''10.13'']"

text \<open>
  The invariants as the specification words them: a count that is not negative and a
  percentage between 0 and 100; dates strictly ascending.
\<close>

definition specRowInvariant :: "dataPoint \<Rightarrow> bool" where
  "specRowInvariant d =
     (date d \<noteq> None \<and>
      (case deaths_7d d of Num r \<Rightarrow> 0 \<le> r | _ \<Rightarrow> False) \<and>
      (case vaccinated_pct d of Num p \<Rightarrow> 0 \<le> p \<and> p \<le> 100 | _ \<Rightarrow> False))"

definition dateKey :: "dataPoint \<Rightarrow> int" where
  "dateKey d = (case date d of None \<Rightarrow> 0 | Some t \<Rightarrow> getTime t)"

definition specSortedNoDuplicates :: "dataPoint list \<Rightarrow> bool" where
  "specSortedNoDuplicates data = sorted_wrt (\<lambda>a b. dateKey a < dateKey b) data"

text \<open>Reading the primitives: the stroke width of a path, the number of elements.\<close>

definition strokeWidthOf :: "prim \<Rightarrow> rat option" where
  "strokeWidthOf p = (case p of Path c sw so rs \<Rightarrow> sw | _ \<Rightarrow> None)"

definition ticksOf :: "prim \<Rightarrow> nat option" where
  "ticksOf p = (case p of Axis c n f x y \<Rightarrow> Some n | _ \<Rightarrow> None)"

fun elementCount :: "prim \<Rightarrow> nat" where
  "elementCount (Group c ps) = 1 + sum_list (map elementCount ps)"
| "elementCount (GroupAt c x y ps) = 1 + sum_list (map elementCount ps)"
| "elementCount (Defs ps) = 1 + sum_list (map elementCount ps)"
| "elementCount p = 1"

section \<open>Evaluation of the inputs\<close>

lemmas number_defs = StringToNumber_def trimWhiteSpace_def nonDecimalIntegerLiteral_def
  strDecimalLiteral_def strUnsigned_def strUnsignedDecimalLiteral_def exponentPart_def
  signedInteger_def roundToDouble_def radixValue_def digitVal_def isDigit_def
  isStrWhiteSpaceChar_def isRadixDigit_def unaryMinus_def

lemmas date_defs = timeParse_def numberRe_def parseLiteral_def localDate_def MakeDay_def
  DayFromYear_def InLeapYear_def daysBeforeMonth_def msPerDay_def radixValue_def
  digitVal_def isDigit_def isStrWhiteSpaceChar_def

lemma toNumber_empty: "StringToNumber [] = Num 0"
  by (simp add: StringToNumber_def trimWhiteSpace_def)

lemma toNumber_scenario:
  "StringToNumber ''0.1'' = Num (1 / 10)"
  "StringToNumber ''0.2'' = Num (2 / 10)"
  "StringToNumber ''0.4'' = Num (4 / 10)"
  "StringToNumber ''0.7'' = Num (7 / 10)"
  "StringToNumber ''1.2'' = Num (12 / 10)"
  "StringToNumber ''2.1'' = Num (21 / 10)"
  "StringToNumber ''3.8'' = Num (38 / 10)"
  "StringToNumber ''6.2'' = Num (62 / 10)"
  "StringToNumber ''10.13'' = Num (1013 / 100)"
  "StringToNumber ''10'' = Num 10"
  by (simp_all add: number_defs)

lemma toNumber_others:
  "StringToNumber ''-5'' = Num (- 5)"
  "StringToNumber ''150'' = Num 150"
  "StringToNumber ''NA'' = NaN"
  by (simp_all add: number_defs)

lemma timeParse_scenario:
  "timeParse ''2020-12-24'' = Some (Date 1608768000000)"
  "timeParse ''2020-12-25'' = Some (Date 1608854400000)"
  "timeParse ''2020-12-26'' = Some (Date 1608940800000)"
  "timeParse ''2020-12-27'' = Some (Date 1609027200000)"
  "timeParse ''2020-12-28'' = Some (Date 1609113600000)"
  "timeParse ''2020-12-29'' = Some (Date 1609200000000)"
  "timeParse ''2020-12-30'' = Some (Date 1609286400000)"
  "timeParse ''2020-12-31'' = Some (Date 1609372800000)"
  "timeParse ''2021-01-01'' = Some (Date 1609459200000)"
  "timeParse ''2021-01-02'' = Some (Date 1609545600000)"
  by (simp_all add: date_defs)

lemma unaryPlus_Some: "unaryPlus (Some s) = StringToNumber s"
  by (simp add: unaryPlus_def)

lemma timeParseField_Some: "timeParseField (Some s) = timeParse s"
  by (simp add: timeParseField_def)

lemma parseRow_csvRow:
  "parseRow (csvRow d x v) =
     \<lparr> date = timeParse d, deaths_7d = StringToNumber x, vaccinated_pct = StringToNumber v \<rparr>"
  by (simp add: parseRow_def csvRow_def unaryPlus_Some timeParseField_Some)

lemma validRow_finite:
  "validRow d = (date d \<noteq> None \<and> isFinite (deaths_7d d) \<and> isFinite (vaccinated_pct d))"
  by (auto simp: validRow_def isNaN_def isFinite_def split: jsnum.splits)

lemma validRow_Num [simp]:
  "validRow \<lparr> date = Some t, deaths_7d = Num a, vaccinated_pct = Num b \<rparr>"
  by (simp add: validRow_def isNaN_def isFinite_def)

lemma validRow_NaN [simp]:
  "\<not> validRow \<lparr> date = t, deaths_7d = NaN, vaccinated_pct = b \<rparr>"
  by (simp add: validRow_def isNaN_def)

lemma processData_csvScenario:
  "processData csvScenario =
     [\<lparr> date = Some (Date 1608768000000), deaths_7d = Num 0, vaccinated_pct = Num (1 / 10) \<rparr>,
      \<lparr> date = Some (Date 1608854400000), deaths_7d = Num 0, vaccinated_pct = Num (2 / 10) \<rparr>,
      \<lparr> date = Some (Date 1608940800000), deaths_7d = Num 0, vaccinated_pct = Num (4 / 10) \<rparr>,
      \<lparr> date = Some (Date 1609027200000), deaths_7d = Num 0, vaccinated_pct = Num (7 / 10) \<rparr>,
      \<lparr> date = Some (Date 1609113600000), deaths_7d = Num 0, vaccinated_pct = Num (12 / 10) \<rparr>,
      \<lparr> date = Some (Date 1609200000000), deaths_7d = Num 0, vaccinated_pct = Num (21 / 10) \<rparr>,
      \<lparr> date = Some (Date 1609286400000), deaths_7d = Num 0, vaccinated_pct = Num (38 / 10) \<rparr>,
      \<lparr> date = Some (Date 1609372800000), deaths_7d = Num 0, vaccinated_pct = Num (62 / 10) \<rparr>,
      \<lparr> date = Some (Date 1609459200000), deaths_7d = Num 10, vaccinated_pct = Num (1013 / 100) \<rparr>]"
  unfolding processData_def csvScenario_def
  by (simp only: list.map parseRow_csvRow toNumber_empty toNumber_scenario timeParse_scenario
        filter.simps validRow_Num if_True)

lemma processData_csvOutOfRange:
  "processData csvOutOfRange =
     [\<lparr> date = Some (Date 1609459200000), deaths_7d = Num (- 5), vaccinated_pct = Num 150 \<rparr>]"
  unfolding processData_def csvOutOfRange_def
  by (simp only: list.map parseRow_csvRow toNumber_others timeParse_scenario
        filter.simps validRow_Num if_True)

lemma processData_csvNotANumber:
  "processData csvNotANumber =
     [\<lparr> date = Some (Date 1609459200000), deaths_7d = Num 10, vaccinated_pct = Num (1013 / 100) \<rparr>]"
  unfolding processData_def csvNotANumber_def
  by (simp only: list.map parseRow_csvRow toNumber_others toNumber_scenario timeParse_scenario
        filter.simps validRow_Num validRow_NaN if_True if_False)

lemma processData_csvGap:
  "processData csvGap =
     [\<lparr> date = Some (Date 1609286400000), deaths_7d = Num 10, vaccinated_pct = Num (38 / 10) \<rparr>,
      \<lparr> date = Some (Date 1609459200000), deaths_7d = Num 10, vaccinated_pct = Num (1013 / 100) \<rparr>]"
  unfolding processData_def csvGap_def
  by (simp only: list.map parseRow_csvRow toNumber_others toNumber_scenario timeParse_scenario
        filter.simps validRow_Num validRow_NaN if_True if_False)

lemma processData_csvUnsorted:
  "processData csvUnsorted =
     [\<lparr> date = Some (Date 1609545600000), deaths_7d = Num 10, vaccinated_pct = Num (1013 / 100) \<rparr>,
      \<lparr> date = Some (Date 1609459200000), deaths_7d = Num 10, vaccinated_pct = Num (1013 / 100) \<rparr>,
      \<lparr> date = Some (Date 1609459200000), deaths_7d = Num 10, vaccinated_pct = Num (1013 / 100) \<rparr>]"
  unfolding processData_def csvUnsorted_def
  by (simp only: list.map parseRow_csvRow toNumber_scenario timeParse_scenario
        filter.simps validRow_Num if_True)

lemma processData_csvSingle:
  "processData csvSingle =
     [\<lparr> date = Some (Date 1609459200000), deaths_7d = Num 10, vaccinated_pct = Num (1013 / 100) \<rparr>]"
  unfolding processData_def csvSingle_def
  by (simp only: list.map parseRow_csvRow toNumber_scenario timeParse_scenario
        filter.simps validRow_Num if_True)

section \<open>The loader\<close>

lemma processData_valid: "d \<in> set (processData rawData) \<Longrightarrow> validRow d"
  by (simp add: processData_def)

lemma loadData_Inr: "loadData rawData = Inr data \<Longrightarrow> data = processData rawData \<and> data \<noteq> []"
  by (auto simp: loadData_def Let_def split: if_splits)

lemma loadData_nonempty: "processData rawData \<noteq> [] \<Longrightarrow> loadData rawData = Inr (processData rawData)"
  by (simp add: loadData_def Let_def)

lemma processData_filter:
  "processData rawData =
     filter (\<lambda>d. date d \<noteq> None \<and> isFinite (deaths_7d d) \<and> isFinite (vaccinated_pct d))
       (map parseRow rawData)"
  by (simp add: processData_def validRow_finite [abs_def])

lemma validateData_iff: "validateData data = (data \<noteq> [] \<and> list_all validRow data)"
  by (simp add: validateData_def validRow_def[abs_def])

text \<open>
  C10. When loading succeeds, the sequence satisfies \<open>validateData\<close>: it is not empty,
  every date is a \<open>Date\<close>, and \<open>deaths_7d\<close> and \<open>vaccinated_pct\<close> are finite
  numbers that are not \<open>NaN\<close>; the filter of the loader and \<open>validateData\<close> test the same
  predicate.
\<close>

theorem loaded_data_validates:
  "loadData rawData = Inr data \<Longrightarrow>
     validateData data \<and> data \<noteq> [] \<and>
     list_all (\<lambda>d. date d \<noteq> None \<and> isFinite (deaths_7d d) \<and> \<not> isNaN (deaths_7d d) \<and>
                    isFinite (vaccinated_pct d) \<and> \<not> isNaN (vaccinated_pct d)) data \<and>
     validateData data = (data \<noteq> [] \<and> list_all validRow data)"
proof -
  assume a: "loadData rawData = Inr data"
  then have d: "data = processData rawData" and ne: "data \<noteq> []"
    using loadData_Inr by blast+
  have all: "list_all validRow data"
    unfolding d by (simp add: list_all_iff processData_valid)
  then have "list_all (\<lambda>d. date d \<noteq> None \<and> isFinite (deaths_7d d) \<and> \<not> isNaN (deaths_7d d) \<and>
                    isFinite (vaccinated_pct d) \<and> \<not> isNaN (vaccinated_pct d)) data"
    by (auto simp: list_all_iff validRow_def)
  with all ne show ?thesis
    by (simp add: validateData_iff)
qed

theorem loaded_data_validates_witness:
  "validateData (processData csvScenario) \<and> length (processData csvScenario) = 9"
proof -
  have ne: "processData csvScenario \<noteq> []"
    by (simp add: processData_csvScenario)
  have "loadData csvScenario = Inr (processData csvScenario)"
    using ne by (rule loadData_nonempty)
  from loaded_data_validates [OF this] show ?thesis
    by (simp add: processData_csvScenario)
qed

section \<open>Claims on the loaded rows\<close>

text \<open>
  C4, as stated: every loaded row has a count that is not negative and a percentage
  between 0 and 100. The loader tests no range: the row \<open>2021-01-01,-5,150\<close> is loaded
  as it is.
\<close>

theorem loaded_rows_out_of_range:
  "loadData csvOutOfRange = Inr (processData csvOutOfRange) \<and>
   processData csvOutOfRange =
     [\<lparr> date = Some (Date 1609459200000), deaths_7d = Num (- 5), vaccinated_pct = Num 150 \<rparr>] \<and>
   \<not> list_all specRowInvariant (processData csvOutOfRange)"
  by (simp add: loadData_def processData_csvOutOfRange specRowInvariant_def)

text \<open>
  C4, amended: every loaded row is the parse of a row of the CSV, its date is a
  \<open>Date\<close>, and its \<open>deaths_7d\<close> and \<open>vaccinated_pct\<close> are finite numbers; the
  ranges of the specification hold for a loaded row exactly when its numbers are in
  range, which the loader does not test.
\<close>

theorem loaded_rows_finite:
  "d \<in> set (processData rawData) \<Longrightarrow>
     d \<in> parseRow ` set rawData \<and> date d \<noteq> None \<and>
     isFinite (deaths_7d d) \<and> isFinite (vaccinated_pct d) \<and>
     (\<exists>t a b. d = \<lparr> date = Some t, deaths_7d = Num a, vaccinated_pct = Num b \<rparr> \<and>
        specRowInvariant d = (0 \<le> a \<and> 0 \<le> b \<and> b \<le> 100))"
proof -
  assume a: "d \<in> set (processData rawData)"
  then have v: "validRow d"
    by (rule processData_valid)
  from a have img: "d \<in> parseRow ` set rawData"
    by (auto simp: processData_def)
  from v obtain t x y where f: "date d = Some t" "deaths_7d d = Num x" "vaccinated_pct d = Num y"
    by (auto simp: validRow_def isFinite_def split: jsnum.splits)
  then have eq: "d = \<lparr> date = Some t, deaths_7d = Num x, vaccinated_pct = Num y \<rparr>"
    by simp
  have inv: "specRowInvariant d = (0 \<le> x \<and> 0 \<le> y \<and> y \<le> 100)"
    by (simp add: specRowInvariant_def f)
  have ex: "\<exists>t a b. d = \<lparr> date = Some t, deaths_7d = Num a, vaccinated_pct = Num b \<rparr> \<and>
        specRowInvariant d = (0 \<le> a \<and> 0 \<le> b \<and> b \<le> 100)"
    using eq inv by blast
  have fin: "date d \<noteq> None" "isFinite (deaths_7d d)" "isFinite (vaccinated_pct d)"
    by (simp_all add: f isFinite_def)
  from img fin ex show ?thesis
    by (intro conjI)
qed

theorem loaded_rows_finite_witness:
  "isFinite (Num (- 5)) \<and> isFinite (Num 150) \<and>
   \<lparr> date = Some (Date 1609459200000), deaths_7d = Num (- 5), vaccinated_pct = Num 150 \<rparr>
     \<in> parseRow ` set csvOutOfRange"
proof -
  have "\<lparr> date = Some (Date 1609459200000), deaths_7d = Num (- 5), vaccinated_pct = Num 150 \<rparr>
          \<in> set (processData csvOutOfRange)"
    by (simp add: processData_csvOutOfRange)
  from loaded_rows_finite [OF this] show ?thesis
    by simp
qed

text \<open>
  C5, as stated: the loaded sequence is ascending by date, without duplicates. The
  loader does not sort: rows out of order, one a duplicate, stay as they are.
\<close>

theorem loaded_rows_unsorted:
  "loadData csvUnsorted = Inr (processData csvUnsorted) \<and>
   map dateKey (processData csvUnsorted) = [1609545600000, 1609459200000, 1609459200000] \<and>
   \<not> specSortedNoDuplicates (processData csvUnsorted)"
  by (simp add: loadData_def processData_csvUnsorted specSortedNoDuplicates_def dateKey_def
        getTime_def)

text \<open>
  C5, amended: the loaded sequence is the parsed rows of the CSV in their order, less
  the rows the filter drops, and nothing else: the rows whose date parsed and whose two
  numbers are finite, each as often and in the order as the CSV has them. So loading
  commutes with appending and with reversing the CSV, a CSV without rejected rows is
  loaded whole, and the sequence is ascending by date, without duplicates, when the
  parsed rows of the CSV are.
\<close>

theorem loaded_rows_keep_order:
  "processData rawData =
     filter (\<lambda>d. date d \<noteq> None \<and> isFinite (deaths_7d d) \<and> isFinite (vaccinated_pct d))
       (map parseRow rawData) \<and>
   processData (rawData @ moreRows) = processData rawData @ processData moreRows \<and>
   processData (rev rawData) = rev (processData rawData) \<and>
   (list_all validRow (map parseRow rawData) \<longrightarrow> processData rawData = map parseRow rawData) \<and>
   subseq (processData rawData) (map parseRow rawData) \<and>
   (specSortedNoDuplicates (map parseRow rawData) \<longrightarrow> specSortedNoDuplicates (processData rawData))"
proof (intro conjI impI)
  show "processData rawData =
     filter (\<lambda>d. date d \<noteq> None \<and> isFinite (deaths_7d d) \<and> isFinite (vaccinated_pct d))
       (map parseRow rawData)"
    by (rule processData_filter)
  show "processData (rawData @ moreRows) = processData rawData @ processData moreRows"
    by (simp add: processData_def)
  show "processData (rev rawData) = rev (processData rawData)"
    by (simp add: processData_def rev_map rev_filter)
  show "subseq (processData rawData) (map parseRow rawData)"
    by (simp add: processData_def)
next
  assume "list_all validRow (map parseRow rawData)"
  then show "processData rawData = map parseRow rawData"
    by (simp add: processData_def list_all_iff)
next
  assume "specSortedNoDuplicates (map parseRow rawData)"
  then show "specSortedNoDuplicates (processData rawData)"
    by (simp add: processData_def specSortedNoDuplicates_def sorted_wrt_filter)
qed

text \<open>
  The nine rows of the scenario are loaded whole and in order; of the three rows of
  \<open>csvGap\<close> the first and the last are.
\<close>

theorem loaded_rows_keep_order_witness:
  "processData csvScenario = map parseRow csvScenario \<and>
   map dateKey (processData csvScenario) =
     [1608768000000, 1608854400000, 1608940800000, 1609027200000, 1609113600000,
      1609200000000, 1609286400000, 1609372800000, 1609459200000] \<and>
   specSortedNoDuplicates (processData csvScenario) \<and>
   map dateKey (processData csvGap) = [1609286400000, 1609459200000] \<and>
   processData (csvScenario @ csvGap) = processData csvScenario @ processData csvGap"
proof -
  have m: "map parseRow csvScenario = processData csvScenario"
    unfolding csvScenario_def processData_def
    by (simp only: list.map parseRow_csvRow toNumber_empty toNumber_scenario timeParse_scenario
          filter.simps validRow_Num if_True)
  have v: "list_all validRow (map parseRow csvScenario)"
    unfolding m by (simp add: list_all_iff processData_valid)
  have k: "map dateKey (processData csvScenario) =
     [1608768000000, 1608854400000, 1608940800000, 1609027200000, 1609113600000,
      1609200000000, 1609286400000, 1609372800000, 1609459200000]"
    by (simp add: processData_csvScenario dateKey_def getTime_def)
  have g: "map dateKey (processData csvGap) = [1609286400000, 1609459200000]"
    by (simp add: processData_csvGap dateKey_def getTime_def)
  have srt: "specSortedNoDuplicates (map parseRow csvScenario)"
    unfolding m by (simp add: processData_csvScenario specSortedNoDuplicates_def dateKey_def getTime_def)
  note t = loaded_rows_keep_order [of csvScenario csvGap]
  from t v have 1: "processData csvScenario = map parseRow csvScenario"
    by blast
  from t srt have 2: "specSortedNoDuplicates (processData csvScenario)"
    by blast
  from t have 3: "processData (csvScenario @ csvGap) = processData csvScenario @ processData csvGap"
    by blast
  from 1 k 2 g 3 show ?thesis
    by (intro conjI)
qed

section \<open>Loading and the error state\<close>

lemma loadData_Inl: "(loadData rawData = Inl e) = (e = NoValidData \<and> processData rawData = [])"
  by (auto simp: loadData_def Let_def)

lemma initChart_no_data:
  "processData rawData = [] \<Longrightarrow>
     initChart nice w (Inr rawData) pg =
       pg\<lparr> chartData := Some [], containerHtml := Some errorMessage \<rparr>"
  by (simp add: initChart_def loadData_def Let_def)

lemma initChart2_no_data:
  "processData rawData = [] \<Longrightarrow>
     initChart2 nice w (Inr rawData) pg =
       pg\<lparr> shortMonths := shortMonths_es, chartData := Some [], containerHtml := Some errorMessage \<rparr>"
  by (simp add: initChart2_def loadData_def Let_def)

lemma initChart_data:
  "processData rawData \<noteq> [] \<Longrightarrow>
     initChart nice w (Inr rawData) pg =
       pg\<lparr> chartData := Some (processData rawData),
            chartRoot := chartRoot pg @ [buildChart nice w (processData rawData)],
            resizeListeners := resizeListeners pg + 1 \<rparr>"
  by (simp add: initChart_def loadData_def Let_def makeResponsive_def)

lemma initChart2_data:
  "processData rawData \<noteq> [] \<Longrightarrow>
     initChart2 nice w (Inr rawData) pg =
       pg\<lparr> shortMonths := shortMonths_es,
            chartData := Some (processData rawData),
            chartRoot := chartRoot pg @ [buildChart2 nice w (processData rawData)],
            resizeListeners := resizeListeners pg + 1 \<rparr>"
  by (simp add: initChart2_def loadData_def Let_def makeResponsive_def)

text \<open>
  C2. Loading fails with \<open>NoValidData\<close> exactly when the filtered rows are empty. Then
  \<open>initChart\<close> puts the message in place of the chart and appends nothing to
  \<open>#chart-root\<close>; otherwise the filtered rows are returned and the chart is drawn into
  a new group. Both chart modules.
\<close>

theorem load_fails_iff_no_valid_rows:
  "(loadData rawData = Inl NoValidData) = (processData rawData = []) \<and>
   (processData rawData = [] \<longrightarrow>
      containerHtml (initChart nice w (Inr rawData) pg) = Some errorMessage \<and>
      chartRoot (initChart nice w (Inr rawData) pg) = chartRoot pg \<and>
      containerHtml (initChart2 nice w (Inr rawData) pg) = Some errorMessage \<and>
      chartRoot (initChart2 nice w (Inr rawData) pg) = chartRoot pg) \<and>
   (processData rawData \<noteq> [] \<longrightarrow>
      loadData rawData = Inr (processData rawData) \<and>
      containerHtml (initChart nice w (Inr rawData) pg) = containerHtml pg \<and>
      chartRoot (initChart nice w (Inr rawData) pg) =
        chartRoot pg @ [buildChart nice w (processData rawData)] \<and>
      containerHtml (initChart2 nice w (Inr rawData) pg) = containerHtml pg \<and>
      chartRoot (initChart2 nice w (Inr rawData) pg) =
        chartRoot pg @ [buildChart2 nice w (processData rawData)])"
proof (intro conjI impI)
  show "(loadData rawData = Inl NoValidData) = (processData rawData = [])"
    by (simp add: loadData_Inl)
next
  assume e: "processData rawData = []"
  show "containerHtml (initChart nice w (Inr rawData) pg) = Some errorMessage"
    by (simp add: initChart_no_data [OF e])
  show "chartRoot (initChart nice w (Inr rawData) pg) = chartRoot pg"
    by (simp add: initChart_no_data [OF e])
  show "containerHtml (initChart2 nice w (Inr rawData) pg) = Some errorMessage"
    by (simp add: initChart2_no_data [OF e])
  show "chartRoot (initChart2 nice w (Inr rawData) pg) = chartRoot pg"
    by (simp add: initChart2_no_data [OF e])
next
  assume n: "processData rawData \<noteq> []"
  show "loadData rawData = Inr (processData rawData)"
    using n by (rule loadData_nonempty)
  show "containerHtml (initChart nice w (Inr rawData) pg) = containerHtml pg"
    by (simp add: initChart_data [OF n])
  show "chartRoot (initChart nice w (Inr rawData) pg) =
      chartRoot pg @ [buildChart nice w (processData rawData)]"
    by (simp add: initChart_data [OF n])
  show "containerHtml (initChart2 nice w (Inr rawData) pg) = containerHtml pg"
    by (simp add: initChart2_data [OF n])
  show "chartRoot (initChart2 nice w (Inr rawData) pg) =
      chartRoot pg @ [buildChart2 nice w (processData rawData)]"
    by (simp add: initChart2_data [OF n])
qed

text \<open>The CSV with a header and no rows, and the CSV of the scenario.\<close>

theorem load_fails_iff_no_valid_rows_witness:
  "loadData [] = Inl NoValidData \<and>
   containerHtml (initChart (\<lambda>m. m) 1024 (Inr []) emptyPage) = Some errorMessage \<and>
   chartRoot (initChart (\<lambda>m. m) 1024 (Inr []) emptyPage) = [] \<and>
   loadData csvScenario = Inr (processData csvScenario) \<and>
   containerHtml (initChart (\<lambda>m. m) 1024 (Inr csvScenario) emptyPage) = None \<and>
   chartRoot (initChart (\<lambda>m. m) 1024 (Inr csvScenario) emptyPage) =
     [buildChart (\<lambda>m. m) 1024 (processData csvScenario)]"
proof -
  have e: "processData [] = []"
    by (simp add: processData_def)
  have n: "processData csvScenario \<noteq> []"
    by (simp add: processData_csvScenario)
  have r: "chartRoot emptyPage = []" "containerHtml emptyPage = None"
    by (simp_all add: emptyPage_def)
  from load_fails_iff_no_valid_rows [of "[]" "\<lambda>m. m" 1024 emptyPage]
       load_fails_iff_no_valid_rows [of csvScenario "\<lambda>m. m" 1024 emptyPage] e n r
  show ?thesis
    by simp
qed

section \<open>Lines and missing values\<close>

lemma lineRuns_all_defined:
  "list_all defd ds \<Longrightarrow> lineRuns defd ds cur = (if cur @ ds = [] then [] else [cur @ ds])"
  by (induction ds arbitrary: cur) auto

lemma validRow_defined: "validRow d \<Longrightarrow> definedDeaths d \<and> definedVaccination d"
  by (simp add: validRow_def definedDeaths_def definedVaccination_def)

lemma processData_defined:
  "list_all definedDeaths (processData rawData) \<and> list_all definedVaccination (processData rawData)"
  by (simp add: list_all_iff processData_valid validRow_defined)

text \<open>
  C1, as stated: in the scenario the deaths line is broken at the rows with an empty
  \<open>deaths_7d\<close> field, and a row with one missing value is kept for the other series.
  The empty field is the number 0: all nine rows are loaded and the deaths line is one
  run through all of them. And the row \<open>2020-12-31,NA,6.2\<close>, whose percentage is
  present, is dropped by the filter: the vaccination line has no point for it.
\<close>

theorem blank_deaths_do_not_break_line:
  "map deaths_7d (processData csvScenario) =
     [Num 0, Num 0, Num 0, Num 0, Num 0, Num 0, Num 0, Num 0, Num 10] \<and>
   lineRuns definedDeaths (processData csvScenario) [] = [processData csvScenario] \<and>
   definedDeaths (parseRow (csvRow ''2020-12-24'' [] ''0.1'')) \<and>
   definedVaccination (parseRow (csvRow ''2020-12-31'' ''NA'' ''6.2'')) \<and>
   map vaccinated_pct (processData csvNotANumber) = [Num (1013 / 100)]"
proof -
  have "list_all definedDeaths (processData csvScenario)"
    using processData_defined by blast
  then have "lineRuns definedDeaths (processData csvScenario) [] = [processData csvScenario]"
    by (simp add: lineRuns_all_defined processData_csvScenario)
  moreover have "definedDeaths (parseRow (csvRow ''2020-12-24'' [] ''0.1''))"
    by (simp add: parseRow_csvRow toNumber_empty toNumber_scenario timeParse_scenario
          definedDeaths_def isNaN_def isFinite_def)
  moreover have "definedVaccination (parseRow (csvRow ''2020-12-31'' ''NA'' ''6.2''))"
    by (simp add: parseRow_csvRow toNumber_others toNumber_scenario timeParse_scenario
          definedVaccination_def isNaN_def isFinite_def)
  ultimately show ?thesis
    by (simp add: processData_csvScenario processData_csvNotANumber)
qed

text \<open>
  C1, amended: the loader keeps a row only when its date parses and both of its numbers
  are finite; a row with a value that is not a finite number in either column is dropped
  from both series, not kept for the series whose value is present. So every loaded row
  is defined for both line generators and is a point of both lines, and each line is one
  run through all loaded rows: no line breaks on loaded data.
\<close>

theorem loaded_rows_never_break_lines:
  "processData rawData =
     filter (\<lambda>d. date d \<noteq> None \<and> isFinite (deaths_7d d) \<and> isFinite (vaccinated_pct d))
       (map parseRow rawData) \<and>
   list_all definedDeaths (processData rawData) \<and>
   list_all definedVaccination (processData rawData) \<and>
   deathsLine sc (processData rawData) =
     (if processData rawData = [] then []
      else [map (\<lambda>d. (xScale sc (date d), yLeftScale sc (deaths_7d d))) (processData rawData)]) \<and>
   vaccinationLine sc (processData rawData) =
     (if processData rawData = [] then []
      else [map (\<lambda>d. (xScale sc (date d), yRightScale sc (vaccinated_pct d))) (processData rawData)]) \<and>
   lineRuns definedDeaths (processData rawData) [] =
     (if processData rawData = [] then [] else [processData rawData]) \<and>
   lineRuns definedVaccination (processData rawData) [] =
     (if processData rawData = [] then [] else [processData rawData])"
proof -
  note d = processData_defined [of rawData]
  have r: "lineRuns definedDeaths (processData rawData) [] =
        (if processData rawData = [] then [] else [processData rawData])"
      "lineRuns definedVaccination (processData rawData) [] =
        (if processData rawData = [] then [] else [processData rawData])"
    using d by (simp_all add: lineRuns_all_defined)
  have l: "deathsLine sc (processData rawData) =
     (if processData rawData = [] then []
      else [map (\<lambda>d. (xScale sc (date d), yLeftScale sc (deaths_7d d))) (processData rawData)])"
     "vaccinationLine sc (processData rawData) =
     (if processData rawData = [] then []
      else [map (\<lambda>d. (xScale sc (date d), yRightScale sc (vaccinated_pct d))) (processData rawData)])"
    by (simp_all add: deathsLine_def vaccinationLine_def d3line_def r)
  from processData_filter [of rawData] d l r show ?thesis
    by (intro conjI) blast+
qed

text \<open>
  Of the three rows of \<open>csvGap\<close> the one with \<open>NA\<close> deaths is dropped from both
  series; each line is one run through the other two.
\<close>

theorem loaded_rows_never_break_lines_witness:
  "map deaths_7d (processData csvGap) = [Num 10, Num 10] \<and>
   map vaccinated_pct (processData csvGap) = [Num (38 / 10), Num (1013 / 100)] \<and>
   lineRuns definedDeaths (processData csvGap) [] = [processData csvGap] \<and>
   lineRuns definedVaccination (processData csvGap) [] = [processData csvGap]"
proof -
  have n: "processData csvGap \<noteq> []"
    by (simp add: processData_csvGap)
  note t = loaded_rows_never_break_lines
    [where rawData = csvGap and sc = "buildScales (\<lambda>m. m) (processData csvGap) chartDimensions"]
  from t have "lineRuns definedDeaths (processData csvGap) [] =
      (if processData csvGap = [] then [] else [processData csvGap])"
    by blast
  with n have 1: "lineRuns definedDeaths (processData csvGap) [] = [processData csvGap]"
    by simp
  from t have "lineRuns definedVaccination (processData csvGap) [] =
      (if processData csvGap = [] then [] else [processData csvGap])"
    by blast
  with n have 2: "lineRuns definedVaccination (processData csvGap) [] = [processData csvGap]"
    by simp
  have 3: "map deaths_7d (processData csvGap) = [Num 10, Num 10]"
    "map vaccinated_pct (processData csvGap) = [Num (38 / 10), Num (1013 / 100)]"
    by (simp_all add: processData_csvGap)
  from 3 1 2 show ?thesis
    by (intro conjI)
qed

section \<open>The axis date formatter\<close>

lemma civil_2021_02_03: "civilFromDay 18661 = (2021, 1, 3)"
  unfolding civilFromDay_def Let_def by simp

lemma timeParse_2021_02_03: "timeParse ''2021-02-03'' = Some (Date 1612310400000)"
  by (simp add: date_defs)

lemma formatAxisDate_2021_02_03:
  "months ! 1 = m \<Longrightarrow> formatAxisDate months (Date 1612310400000) = m @ '' 2021''"
  by (simp add: formatAxisDate_def formatShortMonth_def formatFullYear_def getFullYear_def
        getMonth_def getTime_def msPerDay_def civil_2021_02_03 pad4_def digitChar_def)

lemma shortMonths_initChart2: "shortMonths (initChart2 nice w fetched pg) = shortMonths_es"
  by (simp add: initChart2_def Let_def makeResponsive_def split: sum.splits)

text \<open>
  C7, as stated: the label of 2021-02-03 is \<open>feb 2021\<close>. The short month names of the
  locale that \<open>initChart\<close> installs are capitalised.
\<close>

theorem axis_label_not_lower_case:
  "map_option (formatAxisDate shortMonths_es) (timeParse ''2021-02-03'') \<noteq> Some ''feb 2021''"
  by (simp add: timeParse_2021_02_03 formatAxisDate_2021_02_03 shortMonths_es_def)

text \<open>
  C7, amended: formatting the date 2021-02-03 through the axis date formatter yields
  \<open>Feb 2021\<close>, in the Spanish locale that the second chart module installs and in d3's
  initial locale, which the first one keeps.
\<close>

theorem axis_label_feb_2021:
  "map_option (formatAxisDate (shortMonths (initChart2 nice w fetched pg)))
     (timeParse ''2021-02-03'') = Some ''Feb 2021'' \<and>
   map_option (formatAxisDate shortMonths_es) (timeParse ''2021-02-03'') = Some ''Feb 2021'' \<and>
   map_option (formatAxisDate shortMonths_en) (timeParse ''2021-02-03'') = Some ''Feb 2021''"
  by (simp add: shortMonths_initChart2 timeParse_2021_02_03 formatAxisDate_2021_02_03
        shortMonths_es_def shortMonths_en_def)

theorem axis_label_feb_2021_witness:
  "map_option (formatAxisDate (shortMonths (initChart2 (\<lambda>m. m) 1024 (Inr csvScenario) emptyPage)))
     (timeParse ''2021-02-03'') = Some ''Feb 2021''"
  using axis_label_feb_2021 [of "\<lambda>m. m" 1024 "Inr csvScenario" emptyPage]
  by simp

section \<open>The children of the chart group\<close>

text \<open>
  The overlays leave the axes and the paths in front of them as they are: the group of
  the chart starts with what \<open>drawAxes\<close> and \<open>drawLines\<close> appended.
\<close>

lemma width_chartDimensions: "width chartDimensions = 572" "height chartDimensions = 279"
  by (simp_all add: chartDimensions_def CHART_CONFIG_width_def margin_left_def margin_right_def
        CHART_CONFIG_height_def margin_top_def margin_bottom_def)

lemma selectEmpty_Cons_leaf:
  "selectEmpty P (Axis c n f x y # svg) = (\<not> P (Axis c n f x y) \<and> selectEmpty P svg)"
  "selectEmpty P (Path c sw so rs # svg) = (\<not> P (Path c sw so rs) \<and> selectEmpty P svg)"
  by (simp_all add: selectEmpty_def)

lemma selectDefsAppend_Cons_leaf:
  "selectDefsAppend m (Axis c n f x y # svg) = Axis c n f x y # selectDefsAppend m svg"
  "selectDefsAppend m (Path c sw so rs # svg) = Path c sw so rs # selectDefsAppend m svg"
  by (simp_all add: selectDefsAppend_def split: option.splits)

lemma drawMilestone_Cons_leaf:
  "drawMilestone sc config m (Axis c n f x y # svg) = Axis c n f x y # drawMilestone sc config m svg"
  "drawMilestone sc config m (Path c sw so rs # svg) = Path c sw so rs # drawMilestone sc config m svg"
  "drawMilestone2 sc config m (Axis c n f x y # svg) = Axis c n f x y # drawMilestone2 sc config m svg"
  "drawMilestone2 sc config m (Path c sw so rs # svg) = Path c sw so rs # drawMilestone2 sc config m svg"
  by (simp_all add: drawMilestone_def drawMilestone2_def Let_def selectEmpty_Cons_leaf
        selectDefsAppend_Cons_leaf isMarker_def)

lemma fold_drawMilestone_Cons_leaf:
  "fold (drawMilestone sc config) ms (Axis c n f x y # svg) =
     Axis c n f x y # fold (drawMilestone sc config) ms svg"
  "fold (drawMilestone sc config) ms (Path c sw so rs # svg) =
     Path c sw so rs # fold (drawMilestone sc config) ms svg"
  "fold (drawMilestone2 sc config) ms (Axis c n f x y # svg) =
     Axis c n f x y # fold (drawMilestone2 sc config) ms svg"
  "fold (drawMilestone2 sc config) ms (Path c sw so rs # svg) =
     Path c sw so rs # fold (drawMilestone2 sc config) ms svg"
  by (induction ms arbitrary: svg; simp add: drawMilestone_Cons_leaf)+

lemma addMilestones_Cons_leaf:
  "addMilestones ms (Axis c n f x y # svg) sc config = Axis c n f x y # addMilestones ms svg sc config"
  "addMilestones ms (Path c sw so rs # svg) sc config = Path c sw so rs # addMilestones ms svg sc config"
  "addMilestones2 ms (Axis c n f x y # svg) sc config = Axis c n f x y # addMilestones2 ms svg sc config"
  "addMilestones2 ms (Path c sw so rs # svg) sc config = Path c sw so rs # addMilestones2 ms svg sc config"
  by (simp_all add: addMilestones_def addMilestones2_def selectEmpty_Cons_leaf isDefs_def
        fold_drawMilestone_Cons_leaf)

lemma addDirectLabels_Cons:
  "addDirectLabels (p # svg) data sc config = p # addDirectLabels svg data sc config"
  "addDirectLabels2 (p # svg) data sc config = p # addDirectLabels2 svg data sc config"
  by (simp_all add: addDirectLabels_def addDirectLabels2_def Let_def)

lemma fold_drawComment_Cons:
  "fold (drawComment sc) cs (p # svg) = p # fold (drawComment sc) cs svg"
  by (induction cs arbitrary: svg) (simp_all add: drawComment_def Let_def)

lemma addAnnotations2_Cons_leaf:
  "addAnnotations2 om cs (Axis c n f x y # svg) data sc config =
     Axis c n f x y # addAnnotations2 om cs svg data sc config"
  "addAnnotations2 om cs (Path c sw so rs # svg) data sc config =
     Path c sw so rs # addAnnotations2 om cs svg data sc config"
  by (simp_all add: addAnnotations2_def Let_def selectEmpty_Cons_leaf selectDefsAppend_Cons_leaf
        isMarker_def fold_drawComment_Cons)

lemma buildChart_children:
  "buildChart nice w data =
     GroupAt [] (Some margin_left) (Some margin_top)
       (drawLines (drawAxes [] (buildScales nice data chartDimensions) chartDimensions w) data
          (buildScales nice data chartDimensions) chartDimensions w @
        addDirectLabels (addMilestones MILESTONES [] (buildScales nice data chartDimensions)
          chartDimensions) data (buildScales nice data chartDimensions) chartDimensions)"
  by (simp add: buildChart_def Let_def drawAxes_def drawLines_def addMilestones_Cons_leaf
        addDirectLabels_Cons)

lemma buildChart2_children:
  "buildChart2 nice w data =
     GroupAt [] (Some margin_left) (Some margin_top)
       (drawLines (drawAxes2 [] (buildScales nice data chartDimensions) chartDimensions w) data
          (buildScales nice data chartDimensions) chartDimensions w @
        addAnnotations2 omicronAnnotation COMMENTS
          (addDirectLabels2 (addMilestones2 MILESTONES2 [] (buildScales nice data chartDimensions)
             chartDimensions) data (buildScales nice data chartDimensions) chartDimensions)
          data (buildScales nice data chartDimensions) chartDimensions)"
  by (simp add: buildChart2_def Let_def drawAxes2_def drawLines_def addMilestones_Cons_leaf
        addDirectLabels_Cons addAnnotations2_Cons_leaf)

section \<open>The mobile breakpoint\<close>

lemma deaths_style_desktop:
  "getResponsiveLineStyle LINE_STYLES_deaths LINE_STYLES_mobile_deaths False ''strokeWidth'' = Some (18 / 10)"
  "getResponsiveLineStyle LINE_STYLES_deaths LINE_STYLES_mobile_deaths False ''strokeOpacity'' = Some (8 / 10)"
  by (simp_all add: getResponsiveLineStyle_def LINE_STYLES_deaths_def)

lemma deaths_style_mobile:
  "getResponsiveLineStyle LINE_STYLES_deaths LINE_STYLES_mobile_deaths True ''strokeWidth'' = Some (15 / 10)"
  "getResponsiveLineStyle LINE_STYLES_deaths LINE_STYLES_mobile_deaths True ''strokeOpacity'' = Some (75 / 100)"
  by (simp_all add: getResponsiveLineStyle_def LINE_STYLES_deaths_def LINE_STYLES_mobile_deaths_def
        map_add_def)

lemma vaccination_style:
  "LINE_STYLES_vaccination ''strokeWidth'' = Some (18 / 10)"
  "LINE_STYLES_vaccination ''strokeOpacity'' = Some (8 / 10)"
  by (simp_all add: LINE_STYLES_vaccination_def)

lemma drawLines_desktop:
  "BREAKPOINTS_mobile < w \<Longrightarrow>
     drawLines svg data sc config w =
       svg @ [Path ''line line--deaths'' (Some (18 / 10)) (Some (8 / 10)) (deathsLine sc data),
              Path ''line line--vaccination'' (Some (18 / 10)) (Some (8 / 10)) (vaccinationLine sc data)]"
  by (simp add: drawLines_def isMobile_def Let_def deaths_style_desktop vaccination_style)

lemma drawLines_mobile:
  "w \<le> BREAKPOINTS_mobile \<Longrightarrow>
     drawLines svg data sc config w =
       svg @ [Path ''line line--deaths'' (Some (15 / 10)) (Some (75 / 100)) (deathsLine sc data),
              Path ''line line--vaccination'' (Some (18 / 10)) (Some (8 / 10)) (vaccinationLine sc data)]"
  by (simp add: drawLines_def isMobile_def Let_def deaths_style_mobile vaccination_style)

text \<open>
  C6, as stated: below the breakpoint the stroke width of the lines of the drawn series
  is reduced. The mobile override has an entry for the deaths line only: the vaccination
  line, the second path of \<open>drawLines\<close>, keeps its width.
\<close>

theorem vaccination_stroke_not_reduced:
  "map strokeWidthOf (drawLines [] [] (buildScales (\<lambda>m. m) [] chartDimensions) chartDimensions 1024)
     = [Some (18 / 10), Some (18 / 10)] \<and>
   map strokeWidthOf (drawLines [] [] (buildScales (\<lambda>m. m) [] chartDimensions) chartDimensions 400)
     = [Some (15 / 10), Some (18 / 10)]"
  by (simp add: drawLines_desktop drawLines_mobile BREAKPOINTS_mobile_def strokeWidthOf_def)

text \<open>
  C6, amended: when the viewport goes from a width above the breakpoint to one at or
  below it and the chart is redrawn, the tick count of the x axis changes from 6 to 4 and
  the deaths line goes from stroke width 1.8 and opacity 0.8 to the 1.5 and 0.75 of the
  mobile override; the vaccination line, which has no override, keeps 1.8 and 0.8.
\<close>

theorem mobile_breakpoint_ticks_and_stroke:
  "BREAKPOINTS_mobile < wd \<Longrightarrow> wm \<le> BREAKPOINTS_mobile \<Longrightarrow>
   chartData pg = Some data \<Longrightarrow> data \<noteq> [] \<Longrightarrow>
     getTickCount (isMobile wd BREAKPOINTS_mobile) = 6 \<and>
     getTickCount (isMobile wm BREAKPOINTS_mobile) = 4 \<and>
     (\<exists>rest. chartRoot (resizeChart nice wd pg) =
        [GroupAt [] (Some margin_left) (Some margin_top)
           (Axis ''axis axis--x'' 6 ''formatAxisDate'' 0 (height chartDimensions) #
            Axis ''axis axis--left'' 6 [] 0 0 #
            Axis ''axis axis--right'' 5 ''formatPercentage'' (width chartDimensions) 0 #
            Path ''line line--deaths'' (Some (18 / 10)) (Some (8 / 10))
              (deathsLine (buildScales nice data chartDimensions) data) #
            Path ''line line--vaccination'' (Some (18 / 10)) (Some (8 / 10))
              (vaccinationLine (buildScales nice data chartDimensions) data) # rest)]) \<and>
     (\<exists>rest. chartRoot (resizeChart nice wm pg) =
        [GroupAt [] (Some margin_left) (Some margin_top)
           (Axis ''axis axis--x'' 4 ''formatAxisDate'' 0 (height chartDimensions) #
            Axis ''axis axis--left'' 6 [] 0 0 #
            Axis ''axis axis--right'' 5 ''formatPercentage'' (width chartDimensions) 0 #
            Path ''line line--deaths'' (Some (15 / 10)) (Some (75 / 100))
              (deathsLine (buildScales nice data chartDimensions) data) #
            Path ''line line--vaccination'' (Some (18 / 10)) (Some (8 / 10))
              (vaccinationLine (buildScales nice data chartDimensions) data) # rest)]) \<and>
     (\<exists>rest. chartRoot (resizeChart2 nice wd pg) =
        [GroupAt [] (Some margin_left) (Some margin_top)
           (Axis ''axis axis--x'' 6 ''formatAxisDate'' 0 (height chartDimensions) #
            Axis ''axis axis--left'' 5 [] 0 0 #
            Axis ''axis axis--right'' 4 ''formatPercentage'' (width chartDimensions) 0 #
            Path ''line line--deaths'' (Some (18 / 10)) (Some (8 / 10))
              (deathsLine (buildScales nice data chartDimensions) data) #
            Path ''line line--vaccination'' (Some (18 / 10)) (Some (8 / 10))
              (vaccinationLine (buildScales nice data chartDimensions) data) # rest)]) \<and>
     (\<exists>rest. chartRoot (resizeChart2 nice wm pg) =
        [GroupAt [] (Some margin_left) (Some margin_top)
           (Axis ''axis axis--x'' 4 ''formatAxisDate'' 0 (height chartDimensions) #
            Axis ''axis axis--left'' 5 [] 0 0 #
            Axis ''axis axis--right'' 4 ''formatPercentage'' (width chartDimensions) 0 #
            Path ''line line--deaths'' (Some (15 / 10)) (Some (75 / 100))
              (deathsLine (buildScales nice data chartDimensions) data) #
            Path ''line line--vaccination'' (Some (18 / 10)) (Some (8 / 10))
              (vaccinationLine (buildScales nice data chartDimensions) data) # rest)])"
  by (simp add: resizeChart_def resizeChart2_def buildChart_children buildChart2_children
        drawLines_desktop drawLines_mobile drawAxes_def drawAxes2_def isMobile_def getTickCount_def)

theorem mobile_breakpoint_ticks_and_stroke_witness:
  "(\<exists>rest. chartRoot (resizeChart (\<lambda>m. m) 400
        (initChart (\<lambda>m. m) 1024 (Inr csvScenario) emptyPage)) =
      [GroupAt [] (Some 56) (Some 56)
         (Axis ''axis axis--x'' 4 ''formatAxisDate'' 0 279 #
          Axis ''axis axis--left'' 6 [] 0 0 #
          Axis ''axis axis--right'' 5 ''formatPercentage'' 572 0 #
          Path ''line line--deaths'' (Some (15 / 10)) (Some (75 / 100))
            (deathsLine (buildScales (\<lambda>m. m) (processData csvScenario) chartDimensions)
               (processData csvScenario)) #
          Path ''line line--vaccination'' (Some (18 / 10)) (Some (8 / 10))
            (vaccinationLine (buildScales (\<lambda>m. m) (processData csvScenario) chartDimensions)
               (processData csvScenario)) # rest)])"
proof -
  have a: "BREAKPOINTS_mobile < 1024" and b: "400 \<le> BREAKPOINTS_mobile"
    by (simp_all add: BREAKPOINTS_mobile_def)
  have n: "processData csvScenario \<noteq> []"
    by (simp add: processData_csvScenario)
  have c: "chartData (initChart (\<lambda>m. m) 1024 (Inr csvScenario) emptyPage) =
      Some (processData csvScenario)"
    by (simp add: initChart_data [OF n])
  from mobile_breakpoint_ticks_and_stroke [OF a b c n, of "\<lambda>m. m"]
  show ?thesis
    by (simp add: width_chartDimensions margin_left_def margin_top_def)
qed

section \<open>Milestones and annotations outside the time domain\<close>

lemma drawMilestone_outside:
  "\<not> inRange (xScale sc (timeParse (m_date m))) (width config) \<Longrightarrow>
     drawMilestone sc config m svg = svg \<and> drawMilestone2 sc config m svg = svg"
  by (simp add: drawMilestone_def drawMilestone2_def Let_def)

lemma appendToDefsList_keeps_Line:
  "appendToDefsList m ps = Some ps' \<Longrightarrow> Line c x1 y1 x2 y2 \<in> set ps \<Longrightarrow>
     Line c x1 y1 x2 y2 \<in> set ps'"
proof (induction ps arbitrary: ps')
  case Nil
  then show ?case by simp
next
  case (Cons p ps)
  show ?case
  proof (cases "appendToDefs m p")
    case None
    with Cons.prems obtain qs where q: "appendToDefsList m ps = Some qs" "ps' = p # qs"
      by auto
    from Cons.prems(2) have "p = Line c x1 y1 x2 y2 \<or> Line c x1 y1 x2 y2 \<in> set ps"
      by auto
    then show ?thesis
      using Cons.IH [OF q(1)] q(2) by auto
  next
    case (Some p')
    with Cons.prems have ps': "ps' = p' # ps"
      by simp
    from Some have "p \<noteq> Line c x1 y1 x2 y2"
      by auto
    with Cons.prems(2) ps' show ?thesis
      by auto
  qed
qed

lemma selectDefsAppend_keeps_Line:
  "Line c x1 y1 x2 y2 \<in> set svg \<Longrightarrow> Line c x1 y1 x2 y2 \<in> set (selectDefsAppend m svg)"
  by (auto simp: selectDefsAppend_def split: option.splits dest: appendToDefsList_keeps_Line)

lemma drawMilestone_inside:
  "xScale sc (timeParse (m_date m)) = Some x \<Longrightarrow> 0 \<le> x \<Longrightarrow> x \<le> width config \<Longrightarrow>
     Line (''milestone milestone--'' @ m_style m) (Some x) (Some 0) (Some x) (Some (height config))
       \<in> set (drawMilestone sc config m svg) \<and>
     Line (''milestone milestone--'' @ m_style m) (Some x) (Some 0) (Some x) (Some (height config))
       \<in> set (drawMilestone2 sc config m svg)"
  by (simp add: drawMilestone_def drawMilestone2_def Let_def inRange_def
        selectDefsAppend_keeps_Line)

lemma xScale_buildScales:
  "extent data = Some (t0, t1) \<Longrightarrow> t0 < t1 \<Longrightarrow>
     xScale (buildScales nice data config) (Some d) =
       Some (width config * ((of_int (getTime d) - t0) / (t1 - t0)))"
  by (simp add: buildScales_def scaleTime_def scaleLinear_def bimap_def interpolateNumber_def
        normalizeD_def)

lemma xScale_before:
  assumes "t0 < t1" "0 < w" "t < t0"
  shows "w * ((t - t0) / (t1 - t0)) < (0::rat)"
proof -
  from assms have "(t - t0) / (t1 - t0) < 0"
    by (simp add: divide_neg_pos)
  from mult_pos_neg [OF assms(2) this] show ?thesis .
qed

lemma xScale_after:
  assumes "t0 < t1" "0 < w" "t1 < t"
  shows "w < w * ((t - t0) / (t1 - t0 :: rat))"
proof -
  from assms have "1 < (t - t0) / (t1 - t0)"
    by (simp add: less_divide_eq)
  from mult_strict_left_mono [OF this assms(2)] show ?thesis
    by (simp only: mult_1_right)
qed

lemma extent_csvScenario:
  "extent (processData csvScenario) = Some (1608768000000, 1609459200000)"
  by (simp add: extent_def processData_csvScenario List.map_filter_def getTime_def)

lemma d3max_csvScenario: "d3max (processData csvScenario) = Some 10"
  by (simp add: d3max_def processData_csvScenario List.map_filter_def)

lemma drawComment_appends:
  "drawComment sc c svg =
     svg @
       [Group (''comment comment--'' @ c_id c)
          (map (\<lambda>(i, ln). TextEl [] (addTo (commentX sc c) (orZero (c_dx c)))
                  (addTo (addTo ((if c_yType c = ''right'' then yRightScale sc else yLeftScale sc)
                                   (Num (c_yValue c))) (orZero (c_dy c))) (of_nat i * 12))
                  (case c_anchor c of None \<Rightarrow> ''start'' | Some a \<Rightarrow> if a = [] then ''start'' else a) ln)
             (enumerate 0 (labelLines (c_lines c))))]"
  by (simp add: drawComment_def Let_def)

lemma drawComment_after: "drawComment sc c svg = svg @ drawComment sc c []"
  by (simp add: drawComment_def Let_def)

lemma fold_drawComment:
  "fold (drawComment sc) cs svg = svg @ concat (map (\<lambda>c. drawComment sc c []) cs)"
proof (induction cs arbitrary: svg)
  case Nil
  then show ?case by simp
next
  case (Cons c cs)
  have "fold (drawComment sc) (c # cs) svg = fold (drawComment sc) cs (drawComment sc c svg)"
    by simp
  also have "\<dots> = drawComment sc c svg @ concat (map (\<lambda>c. drawComment sc c []) cs)"
    by (rule Cons.IH)
  also have "\<dots> = (svg @ drawComment sc c []) @ concat (map (\<lambda>c. drawComment sc c []) cs)"
    using drawComment_after [of sc c svg] by simp
  finally show ?case
    by simp
qed

lemma length_appendToDefsList:
  "appendToDefsList m ps = Some ps' \<Longrightarrow> length ps' = length ps"
proof (induction ps arbitrary: ps')
  case Nil
  then show ?case by simp
next
  case (Cons p ps)
  show ?case
  proof (cases "appendToDefs m p")
    case None
    with Cons.prems obtain qs where q: "appendToDefsList m ps = Some qs" "ps' = p # qs"
      by auto
    with Cons.IH [OF q(1)] show ?thesis
      by simp
  next
    case (Some p')
    with Cons.prems show ?thesis
      by auto
  qed
qed

lemma length_selectDefsAppend: "length (selectDefsAppend m svg) = length svg"
  by (auto simp: selectDefsAppend_def split: option.splits dest: length_appendToDefsList)

lemma addAnnotations2_appends:
  "\<exists>svg1 g. addAnnotations2 om cs svg data sc config =
       svg1 @ [Group ''omicron-annotation'' g] @ concat (map (\<lambda>c. drawComment sc c []) cs) \<and>
     length svg1 = length svg"
proof (cases "selectEmpty (isMarker ''arrowhead'') svg")
  case True
  then have "addAnnotations2 om cs svg data sc config =
      selectDefsAppend (Marker ''arrowhead'') svg @
        [Group ''omicron-annotation''
          (map (\<lambda>(index, ln). TextEl []
                   (addTo (xScale sc (timeParse (a_date om))) 35)
                   (addTo (addTo (case find (\<lambda>d. formatYmd (date d) = a_date om) data of
                                    Some d \<Rightarrow> yLeftScale sc (deaths_7d d)
                                  | None \<Rightarrow> Some (height config * (3 / 10))) (- 3)) (of_nat index * 12))
                   ''start'' ln)
             (enumerate 0 (labelLines (a_lines om))) @
           [Line [] (addTo (xScale sc (timeParse (a_date om))) 35)
              (case find (\<lambda>d. formatYmd (date d) = a_date om) data of
                 Some d \<Rightarrow> yLeftScale sc (deaths_7d d)
               | None \<Rightarrow> Some (height config * (3 / 10)))
              (xScale sc (timeParse (a_date om)))
              (case find (\<lambda>d. formatYmd (date d) = a_date om) data of
                 Some d \<Rightarrow> yLeftScale sc (deaths_7d d)
               | None \<Rightarrow> Some (height config * (3 / 10)))])] @
        concat (map (\<lambda>c. drawComment sc c []) cs)"
    by (simp add: addAnnotations2_def Let_def fold_drawComment)
  then show ?thesis
    using length_selectDefsAppend by blast
next
  case False
  then have "addAnnotations2 om cs svg data sc config =
      svg @
        [Group ''omicron-annotation''
          (map (\<lambda>(index, ln). TextEl []
                   (addTo (xScale sc (timeParse (a_date om))) 35)
                   (addTo (addTo (case find (\<lambda>d. formatYmd (date d) = a_date om) data of
                                    Some d \<Rightarrow> yLeftScale sc (deaths_7d d)
                                  | None \<Rightarrow> Some (height config * (3 / 10))) (- 3)) (of_nat index * 12))
                   ''start'' ln)
             (enumerate 0 (labelLines (a_lines om))) @
           [Line [] (addTo (xScale sc (timeParse (a_date om))) 35)
              (case find (\<lambda>d. formatYmd (date d) = a_date om) data of
                 Some d \<Rightarrow> yLeftScale sc (deaths_7d d)
               | None \<Rightarrow> Some (height config * (3 / 10)))
              (xScale sc (timeParse (a_date om)))
              (case find (\<lambda>d. formatYmd (date d) = a_date om) data of
                 Some d \<Rightarrow> yLeftScale sc (deaths_7d d)
               | None \<Rightarrow> Some (height config * (3 / 10)))])] @
        concat (map (\<lambda>c. drawComment sc c []) cs)"
    by (simp add: addAnnotations2_def Let_def fold_drawComment)
  then show ?thesis
    by blast
qed

lemma commentX_buildScales:
  "extent data = Some (t0, t1) \<Longrightarrow> t0 < t1 \<Longrightarrow> c_date c = Some s \<Longrightarrow> s \<noteq> [] \<Longrightarrow>
   timeParse s = Some dc \<Longrightarrow>
     commentX (buildScales nice data config) c =
       Some (width config * ((of_int (getTime dc) - t0) / (t1 - t0)))"
  by (simp add: commentX_def truthy_def timeParseField_def xScale_buildScales)

text \<open>
  C3, as stated: an annotation dated outside the time domain of the data emits nothing.
  \<open>addAnnotations\<close> has no such test: with the data of the scenario (2020-12-24 to
  2021-01-01) the comment dated 2020-07-15 is drawn, at the extrapolated x = -11583,
  left of the range from 0 to 572. And with a single row the time domain has no span:
  the scale maps its date, the minimum, to the middle of the range, x = 286, not to 0.
\<close>

theorem annotation_outside_domain_is_drawn:
  "extent (processData csvScenario) = Some (1608768000000, 1609459200000) \<and>
   map_option getTime (timeParseField (c_date (COMMENTS ! 0))) = Some 1594771200000 \<and>
   \<not> inRange (commentX (buildScales (\<lambda>m. m) (processData csvScenario) chartDimensions) (COMMENTS ! 0))
       (width chartDimensions) \<and>
   drawComment (buildScales (\<lambda>m. m) (processData csvScenario) chartDimensions) (COMMENTS ! 0) [] =
     [Group ''comment comment--yellow''
        [TextEl [] (Some (- 11583)) (Some (- (1953 / 5))) ''start'' ''Cuarentena total'',
         TextEl [] (Some (- 11583)) (Some (- (1893 / 5))) ''start'' ''generalizada'']] \<and>
   extent (processData csvSingle) = Some (1609459200000, 1609459200000) \<and>
   xScale (buildScales (\<lambda>m. m) (processData csvSingle) chartDimensions) (timeParse ''2021-01-01'')
     = Some 286"
proof -
  note e = extent_csvScenario and m = d3max_csvScenario
  have t: "timeParse ''2020-07-15'' = Some (Date 1594771200000)"
    by (simp add: date_defs)
  have c: "COMMENTS ! 0 =
      \<lparr> c_id = ''yellow'', c_date = Some ''2020-07-15'', c_dateRange = None,
        c_yType = ''left'', c_yValue = 24, c_anchor = Some ''start'',
        c_dx = Some 0, c_dy = Some 0,
        c_lines = Lines [''Cuarentena total'', ''generalizada''] \<rparr>"
    by (simp add: COMMENTS_def)
  have x: "commentX (buildScales (\<lambda>m. m) (processData csvScenario) chartDimensions) (COMMENTS ! 0)
      = Some (- 11583)"
    by (simp add: c commentX_def truthy_def timeParseField_def t xScale_buildScales [OF e]
          width_chartDimensions getTime_def)
  have y: "yLeftScale (buildScales (\<lambda>m. m) (processData csvScenario) chartDimensions) (Num 24)
      = Some (- (1953 / 5))"
    by (simp add: buildScales_def m scaleLinear_def bimap_def interpolateNumber_def normalizeD_def
          width_chartDimensions)
  have d: "drawComment (buildScales (\<lambda>m. m) (processData csvScenario) chartDimensions) (COMMENTS ! 0) [] =
     [Group ''comment comment--yellow''
        [TextEl [] (Some (- 11583)) (Some (- (1953 / 5))) ''start'' ''Cuarentena total'',
         TextEl [] (Some (- 11583)) (Some (- (1893 / 5))) ''start'' ''generalizada'']]"
    unfolding drawComment_def Let_def x
    by (simp add: c y addTo_def orZero_def labelLines_def enumerate_eq_zip)
  have p: "map_option getTime (timeParseField (c_date (COMMENTS ! 0))) = Some 1594771200000"
    by (simp add: c timeParseField_def t getTime_def)
  have n: "\<not> inRange (commentX (buildScales (\<lambda>m. m) (processData csvScenario) chartDimensions)
      (COMMENTS ! 0)) (width chartDimensions)"
    unfolding x by (simp add: inRange_def width_chartDimensions)
  have s: "extent (processData csvSingle) = Some (1609459200000, 1609459200000)"
    by (simp add: extent_def processData_csvSingle List.map_filter_def getTime_def)
  have z: "xScale (buildScales (\<lambda>m. m) (processData csvSingle) chartDimensions)
      (timeParse ''2021-01-01'') = Some 286"
    by (simp add: buildScales_def s timeParse_scenario scaleTime_def scaleLinear_def bimap_def
          interpolateNumber_def normalizeD_def width_chartDimensions getTime_def)
  from e p n d s z show ?thesis
    by (intro conjI)
qed

text \<open>
  C3, amended: a milestone whose computed x is outside the range from 0 to the width
  emits nothing (it is clipped, not extrapolated), and that is the case of every
  milestone dated before the first or after the last date of data that span more than
  one instant; a milestone dated exactly at the first date of such data is drawn at
  x = 0. Annotations are drawn wherever their date falls: every comment appends its
  group of text lines at the x its date has on the scale, extrapolated when the date is
  outside the data, and \<open>addAnnotations\<close> appends the call-out group and the group
  of every comment, with no test of the range.
\<close>

theorem milestones_outside_domain_clipped:
  "(\<not> inRange (xScale sc (timeParse (m_date m))) (width config) \<longrightarrow>
      drawMilestone sc config m svg = svg \<and> drawMilestone2 sc config m svg = svg) \<and>
   (extent data = Some (t0, t1) \<and> t0 < t1 \<and> 0 < width config \<and>
    timeParse (m_date m) = Some d \<longrightarrow>
      ((of_int (getTime d) < t0 \<or> t1 < of_int (getTime d)) \<longrightarrow>
         \<not> inRange (xScale (buildScales nice data config) (timeParse (m_date m))) (width config) \<and>
         drawMilestone (buildScales nice data config) config m svg = svg \<and>
         drawMilestone2 (buildScales nice data config) config m svg = svg) \<and>
      (of_int (getTime d) = t0 \<longrightarrow>
         xScale (buildScales nice data config) (timeParse (m_date m)) = Some 0 \<and>
         Line (''milestone milestone--'' @ m_style m) (Some 0) (Some 0) (Some 0) (Some (height config))
           \<in> set (drawMilestone (buildScales nice data config) config m svg) \<and>
         Line (''milestone milestone--'' @ m_style m) (Some 0) (Some 0) (Some 0) (Some (height config))
           \<in> set (drawMilestone2 (buildScales nice data config) config m svg))) \<and>
   drawComment sc c svg =
     svg @
       [Group (''comment comment--'' @ c_id c)
          (map (\<lambda>(i, ln). TextEl [] (addTo (commentX sc c) (orZero (c_dx c)))
                  (addTo (addTo ((if c_yType c = ''right'' then yRightScale sc else yLeftScale sc)
                                   (Num (c_yValue c))) (orZero (c_dy c))) (of_nat i * 12))
                  (case c_anchor c of None \<Rightarrow> ''start'' | Some a \<Rightarrow> if a = [] then ''start'' else a) ln)
             (enumerate 0 (labelLines (c_lines c))))] \<and>
   (\<exists>svg1 g. addAnnotations2 om cs svg data sc config =
       svg1 @ [Group ''omicron-annotation'' g] @ concat (map (\<lambda>c. drawComment sc c []) cs) \<and>
     length svg1 = length svg) \<and>
   (extent data = Some (t0, t1) \<and> t0 < t1 \<and> c_date c = Some s \<and> s \<noteq> [] \<and>
    timeParse s = Some dc \<longrightarrow>
      commentX (buildScales nice data config) c =
        Some (width config * ((of_int (getTime dc) - t0) / (t1 - t0))))"
proof (intro conjI impI)
  assume "\<not> inRange (xScale sc (timeParse (m_date m))) (width config)"
  then show "drawMilestone sc config m svg = svg" "drawMilestone2 sc config m svg = svg"
    using drawMilestone_outside by blast+
next
  assume a: "extent data = Some (t0, t1) \<and> t0 < t1 \<and> 0 < width config \<and>
      timeParse (m_date m) = Some d"
  then have x: "xScale (buildScales nice data config) (timeParse (m_date m)) =
      Some (width config * ((of_int (getTime d) - t0) / (t1 - t0)))"
    by (simp add: xScale_buildScales)
  {
    assume o: "of_int (getTime d) < t0 \<or> t1 < of_int (getTime d)"
    have "width config * ((of_int (getTime d) - t0) / (t1 - t0)) < 0 \<or>
        width config < width config * ((of_int (getTime d) - t0) / (t1 - t0))"
      using o a xScale_before [of t0 t1 "width config" "of_int (getTime d)"]
        xScale_after [of t0 t1 "width config" "of_int (getTime d)"]
      by blast
    then show out: "\<not> inRange (xScale (buildScales nice data config) (timeParse (m_date m))) (width config)"
      unfolding x by (auto simp: inRange_def)
    from drawMilestone_outside [OF out]
    show "drawMilestone (buildScales nice data config) config m svg = svg"
      "drawMilestone2 (buildScales nice data config) config m svg = svg"
      by blast+
  }
  {
    assume e: "of_int (getTime d) = t0"
    then show z: "xScale (buildScales nice data config) (timeParse (m_date m)) = Some 0"
      unfolding x by simp
    from a have w: "(0::rat) \<le> width config"
      by simp
    from drawMilestone_inside [OF z _ w]
    show "Line (''milestone milestone--'' @ m_style m) (Some 0) (Some 0) (Some 0) (Some (height config))
           \<in> set (drawMilestone (buildScales nice data config) config m svg)"
      "Line (''milestone milestone--'' @ m_style m) (Some 0) (Some 0) (Some 0) (Some (height config))
           \<in> set (drawMilestone2 (buildScales nice data config) config m svg)"
      by simp_all
  }
next
  show "drawComment sc c svg =
     svg @
       [Group (''comment comment--'' @ c_id c)
          (map (\<lambda>(i, ln). TextEl [] (addTo (commentX sc c) (orZero (c_dx c)))
                  (addTo (addTo ((if c_yType c = ''right'' then yRightScale sc else yLeftScale sc)
                                   (Num (c_yValue c))) (orZero (c_dy c))) (of_nat i * 12))
                  (case c_anchor c of None \<Rightarrow> ''start'' | Some a \<Rightarrow> if a = [] then ''start'' else a) ln)
             (enumerate 0 (labelLines (c_lines c))))]"
    by (rule drawComment_appends)
  show "\<exists>svg1 g. addAnnotations2 om cs svg data sc config =
       svg1 @ [Group ''omicron-annotation'' g] @ concat (map (\<lambda>c. drawComment sc c []) cs) \<and>
     length svg1 = length svg"
    by (rule addAnnotations2_appends)
next
  assume "extent data = Some (t0, t1) \<and> t0 < t1 \<and> c_date c = Some s \<and> s \<noteq> [] \<and>
      timeParse s = Some dc"
  then show "commentX (buildScales nice data config) c =
      Some (width config * ((of_int (getTime dc) - t0) / (t1 - t0)))"
    using commentX_buildScales by blast
qed

text \<open>
  With the data of the scenario: the first milestone of the table (2021-02-03, after the
  last date) emits nothing; the same milestone dated 2020-12-24, the first date, is drawn
  at x = 0; the first comment of the table (2020-07-15, before the first date) is drawn,
  at x = -11583.
\<close>

theorem milestones_outside_domain_clipped_witness:
  "drawMilestone (buildScales (\<lambda>m. m) (processData csvScenario) chartDimensions) chartDimensions
     (MILESTONES ! 0) [] = [] \<and>
   Line ''milestone milestone--primary'' (Some 0) (Some 0) (Some 0) (Some 279)
     \<in> set (drawMilestone (buildScales (\<lambda>m. m) (processData csvScenario) chartDimensions)
              chartDimensions ((MILESTONES ! 0)\<lparr> m_date := ''2020-12-24'' \<rparr>) []) \<and>
   commentX (buildScales (\<lambda>m. m) (processData csvScenario) chartDimensions) (COMMENTS ! 0) =
     Some (- 11583) \<and>
   length (drawComment (buildScales (\<lambda>m. m) (processData csvScenario) chartDimensions)
             (COMMENTS ! 0) []) = 1"
proof -
  have m0: "m_date (MILESTONES ! 0) = ''2021-02-03''" "m_style (MILESTONES ! 0) = ''primary''"
    by (simp_all add: MILESTONES_def)
  have t: "timeParse ''2021-02-03'' = Some (Date 1612310400000)"
    by (simp add: date_defs)
  have a: "extent (processData csvScenario) = Some (1608768000000, 1609459200000) \<and>
      (1608768000000 :: rat) < 1609459200000 \<and> 0 < width chartDimensions \<and>
      timeParse (m_date (MILESTONES ! 0)) = Some (Date 1612310400000)"
    by (simp add: extent_csvScenario width_chartDimensions m0 t)
  have b: "extent (processData csvScenario) = Some (1608768000000, 1609459200000) \<and>
      (1608768000000 :: rat) < 1609459200000 \<and> 0 < width chartDimensions \<and>
      timeParse (m_date ((MILESTONES ! 0)\<lparr> m_date := ''2020-12-24'' \<rparr>)) = Some (Date 1608768000000)"
    by (simp add: extent_csvScenario width_chartDimensions timeParse_scenario)
  from milestones_outside_domain_clipped
         [where data = "processData csvScenario" and ?t0.0 = 1608768000000 and ?t1.0 = 1609459200000
            and config = chartDimensions and m = "MILESTONES ! 0" and d = "Date 1612310400000"
            and nice = "\<lambda>m. m" and svg = "[]"] a
  have 1: "drawMilestone (buildScales (\<lambda>m. m) (processData csvScenario) chartDimensions)
      chartDimensions (MILESTONES ! 0) [] = []"
    by (simp add: getTime_def)
  from milestones_outside_domain_clipped
         [where data = "processData csvScenario" and ?t0.0 = 1608768000000 and ?t1.0 = 1609459200000
            and config = chartDimensions
            and m = "(MILESTONES ! 0)\<lparr> m_date := ''2020-12-24'' \<rparr>"
            and d = "Date 1608768000000" and nice = "\<lambda>m. m" and svg = "[]"] b
  have 2: "Line ''milestone milestone--primary'' (Some 0) (Some 0) (Some 0) (Some 279)
     \<in> set (drawMilestone (buildScales (\<lambda>m. m) (processData csvScenario) chartDimensions)
              chartDimensions ((MILESTONES ! 0)\<lparr> m_date := ''2020-12-24'' \<rparr>) [])"
    by (simp add: getTime_def m0 width_chartDimensions)
  have c0: "c_date (COMMENTS ! 0) = Some ''2020-07-15''"
    by (simp add: COMMENTS_def)
  have tc: "timeParse ''2020-07-15'' = Some (Date 1594771200000)"
    by (simp add: date_defs)
  have c: "extent (processData csvScenario) = Some (1608768000000, 1609459200000) \<and>
      (1608768000000 :: rat) < 1609459200000 \<and> c_date (COMMENTS ! 0) = Some ''2020-07-15'' \<and>
      ''2020-07-15'' \<noteq> [] \<and> timeParse ''2020-07-15'' = Some (Date 1594771200000)"
    by (simp add: extent_csvScenario c0 tc)
  note t = milestones_outside_domain_clipped
         [where data = "processData csvScenario" and ?t0.0 = 1608768000000 and ?t1.0 = 1609459200000
            and config = chartDimensions and c = "COMMENTS ! 0" and s = "''2020-07-15''"
            and dc = "Date 1594771200000" and nice = "\<lambda>m. m" and svg = "[]"
            and sc = "buildScales (\<lambda>m. m) (processData csvScenario) chartDimensions"
            and m = "MILESTONES ! 0" and d = "Date 1612310400000" and om = omicronAnnotation
            and cs = COMMENTS]
  from t c have "commentX (buildScales (\<lambda>m. m) (processData csvScenario) chartDimensions)
      (COMMENTS ! 0) =
      Some (width chartDimensions * ((of_int (getTime (Date 1594771200000)) - 1608768000000) /
        (1609459200000 - 1608768000000)))"
    by blast
  then have 3: "commentX (buildScales (\<lambda>m. m) (processData csvScenario) chartDimensions)
      (COMMENTS ! 0) = Some (- 11583)"
    by (simp add: width_chartDimensions getTime_def)
  from t have "drawComment (buildScales (\<lambda>m. m) (processData csvScenario) chartDimensions)
      (COMMENTS ! 0) [] =
     [] @
       [Group (''comment comment--'' @ c_id (COMMENTS ! 0))
          (map (\<lambda>(i, ln). TextEl []
                  (addTo (commentX (buildScales (\<lambda>m. m) (processData csvScenario) chartDimensions)
                     (COMMENTS ! 0)) (orZero (c_dx (COMMENTS ! 0))))
                  (addTo (addTo ((if c_yType (COMMENTS ! 0) = ''right''
                                  then yRightScale (buildScales (\<lambda>m. m) (processData csvScenario) chartDimensions)
                                  else yLeftScale (buildScales (\<lambda>m. m) (processData csvScenario) chartDimensions))
                                   (Num (c_yValue (COMMENTS ! 0)))) (orZero (c_dy (COMMENTS ! 0))))
                     (of_nat i * 12))
                  (case c_anchor (COMMENTS ! 0) of None \<Rightarrow> ''start''
                   | Some a \<Rightarrow> if a = [] then ''start'' else a) ln)
             (enumerate 0 (labelLines (c_lines (COMMENTS ! 0)))))]"
    by blast
  then have 4: "length (drawComment (buildScales (\<lambda>m. m) (processData csvScenario) chartDimensions)
             (COMMENTS ! 0) []) = 1"
    by simp
  from 1 2 3 4 show ?thesis
    by (intro conjI)
qed

section \<open>Redrawing\<close>

lemma resizeChart_again: "resizeChart nice w (resizeChart nice w pg) = resizeChart nice w pg"
  by (simp add: resizeChart_def split: option.splits)

lemma resizeChart2_again: "resizeChart2 nice w (resizeChart2 nice w pg) = resizeChart2 nice w pg"
  by (simp add: resizeChart2_def split: option.splits)

lemma resizeChart_after_init:
  "resizeChart nice w (initChart nice w fetched emptyPage) = initChart nice w fetched emptyPage"
  by (simp add: resizeChart_def initChart_def loadData_def Let_def makeResponsive_def emptyPage_def
        split: sum.splits)

lemma resizeChart2_after_init:
  "resizeChart2 nice w (initChart2 nice w fetched emptyPage) = initChart2 nice w fetched emptyPage"
  by (simp add: resizeChart2_def initChart2_def loadData_def Let_def makeResponsive_def emptyPage_def
        split: sum.splits)

lemma resizeChart_depends_on_data:
  "chartData pg = chartData pg' \<Longrightarrow>
     chartRoot (resizeChart nice w pg) = chartRoot (resizeChart nice w pg') \<and>
     chartRoot (resizeChart2 nice w pg) = chartRoot (resizeChart2 nice w pg')"
  by (simp add: resizeChart_def resizeChart2_def split: option.splits)

text \<open>
  C8. The redraw clears \<open>#chart-root\<close> and draws from \<open>chartData\<close> and the width alone:
  what it leaves on the surface is the same for the same data and width whatever was
  there before, a second redraw changes nothing, and a redraw after \<open>initChart\<close> leaves
  what \<open>initChart\<close> drew; so the coordinates and the number of elements are those of
  one invocation. Both chart modules.
\<close>

theorem redraw_is_idempotent:
  "resizeChart nice w (resizeChart nice w pg) = resizeChart nice w pg \<and>
   resizeChart2 nice w (resizeChart2 nice w pg) = resizeChart2 nice w pg \<and>
   resizeChart nice w (initChart nice w fetched emptyPage) = initChart nice w fetched emptyPage \<and>
   resizeChart2 nice w (initChart2 nice w fetched emptyPage) = initChart2 nice w fetched emptyPage \<and>
   sum_list (map elementCount (chartRoot (resizeChart nice w (resizeChart nice w pg)))) =
     sum_list (map elementCount (chartRoot (resizeChart nice w pg))) \<and>
   sum_list (map elementCount (chartRoot (resizeChart2 nice w (resizeChart2 nice w pg)))) =
     sum_list (map elementCount (chartRoot (resizeChart2 nice w pg))) \<and>
   (chartData pg = chartData pg' \<longrightarrow>
      chartRoot (resizeChart nice w pg) = chartRoot (resizeChart nice w pg') \<and>
      chartRoot (resizeChart2 nice w pg) = chartRoot (resizeChart2 nice w pg'))"
  using resizeChart_depends_on_data [of pg pg' nice w]
  by (simp add: resizeChart_again resizeChart2_again resizeChart_after_init resizeChart2_after_init)

theorem redraw_is_idempotent_witness:
  "chartRoot (resizeChart (\<lambda>m. m) 1024
       (resizeChart (\<lambda>m. m) 1024 (initChart (\<lambda>m. m) 1024 (Inr csvScenario) emptyPage))) =
     [buildChart (\<lambda>m. m) 1024 (processData csvScenario)] \<and>
   chartRoot (resizeChart (\<lambda>m. m) 1024
       ((initChart (\<lambda>m. m) 1024 (Inr csvScenario) emptyPage)\<lparr> chartRoot := [] \<rparr>)) =
     [buildChart (\<lambda>m. m) 1024 (processData csvScenario)]"
proof -
  have n: "processData csvScenario \<noteq> []"
    by (simp add: processData_csvScenario)
  have i: "chartRoot (initChart (\<lambda>m. m) 1024 (Inr csvScenario) emptyPage) =
      [buildChart (\<lambda>m. m) 1024 (processData csvScenario)]"
    by (simp add: initChart_data [OF n] emptyPage_def)
  have d: "chartData ((initChart (\<lambda>m. m) 1024 (Inr csvScenario) emptyPage)\<lparr> chartRoot := [] \<rparr>) =
      chartData (initChart (\<lambda>m. m) 1024 (Inr csvScenario) emptyPage)"
    by simp
  note r = redraw_is_idempotent
         [of "\<lambda>m. m" 1024 "initChart (\<lambda>m. m) 1024 (Inr csvScenario) emptyPage" "Inr csvScenario"
            "(initChart (\<lambda>m. m) 1024 (Inr csvScenario) emptyPage)\<lparr> chartRoot := [] \<rparr>"]
  from r have a: "resizeChart (\<lambda>m. m) 1024
       (resizeChart (\<lambda>m. m) 1024 (initChart (\<lambda>m. m) 1024 (Inr csvScenario) emptyPage)) =
      resizeChart (\<lambda>m. m) 1024 (initChart (\<lambda>m. m) 1024 (Inr csvScenario) emptyPage)"
    by blast
  from r have b: "resizeChart (\<lambda>m. m) 1024 (initChart (\<lambda>m. m) 1024 (Inr csvScenario) emptyPage) =
      initChart (\<lambda>m. m) 1024 (Inr csvScenario) emptyPage"
    by blast
  from r d have c: "chartRoot (resizeChart (\<lambda>m. m) 1024
        ((initChart (\<lambda>m. m) 1024 (Inr csvScenario) emptyPage)\<lparr> chartRoot := [] \<rparr>)) =
      chartRoot (resizeChart (\<lambda>m. m) 1024 (initChart (\<lambda>m. m) 1024 (Inr csvScenario) emptyPage))"
    by metis
  show ?thesis
    unfolding c a b i by simp
qed

section \<open>The debounced resize handler\<close>

lemma runUntil_not_due:
  "t \<le> t' \<Longrightarrow> t' < t + wait \<Longrightarrow>
     runUntil t' \<lparr> now = t, nextId = Suc n, pending = [(n, t + wait, a)], timeout = Some n,
                   calls = cs \<rparr> =
       \<lparr> now = t', nextId = Suc n, pending = [(n, t + wait, a)], timeout = Some n, calls = cs \<rparr>"
  by (simp add: runUntil_def Let_def max_def)

lemma executedFunction_rearms:
  "executedFunction wait a'
     \<lparr> now = t', nextId = Suc n, pending = [(n, due, a)], timeout = Some n, calls = cs \<rparr> =
       \<lparr> now = t', nextId = Suc (Suc n), pending = [(Suc n, t' + wait, a')], timeout = Some (Suc n),
         calls = cs \<rparr>"
  by (simp add: executedFunction_def clearTimeout_def setTimeout_def Let_def)

lemma resizeEvents_burst:
  "burst wait ((t, a) # es) \<Longrightarrow>
     resizeEvents wait es
       \<lparr> now = t, nextId = Suc n, pending = [(n, t + wait, a)], timeout = Some n, calls = cs \<rparr> =
       \<lparr> now = fst (last ((t, a) # es)), nextId = Suc (n + length es),
         pending = [(n + length es, fst (last ((t, a) # es)) + wait, snd (last ((t, a) # es)))],
         timeout = Some (n + length es), calls = cs \<rparr>"
proof (induction es arbitrary: t a n)
  case Nil
  then show ?case by simp
next
  case (Cons e es)
  obtain t' a' where e: "e = (t', a')"
    by (cases e)
  from Cons.prems e have b: "t \<le> t'" "t' < t + wait" "burst wait ((t', a') # es)"
    by simp_all
  show ?case
    unfolding e
    by (simp add: runUntil_not_due [OF b(1,2)] executedFunction_rearms Cons.IH [OF b(3)])
qed

lemma resizeEvents_first:
  "executedFunction wait a (runUntil t noTimers) =
     \<lparr> now = t, nextId = Suc 1, pending = [(1, t + wait, a)], timeout = Some 1, calls = [] \<rparr>"
  by (simp add: noTimers_def runUntil_def executedFunction_def clearTimeout_def setTimeout_def
        Let_def)

lemma settle_fires_once:
  "calls (settle \<lparr> now = t, nextId = k, pending = [(n, t + wait, a)], timeout = Some n,
                   calls = cs \<rparr>) = cs @ [(t + wait, a)]"
  by (simp add: settle_def fire_def later_def clearTimeout_def Let_def max_def)

text \<open>
  C9. For a burst of resize events (each less than the delay after the one before), every
  event replaces the pending timer by one due the delay after itself, the function is not
  called while the burst lasts, and it is called exactly once, the delay after the last
  event and with the arguments of the last event.
\<close>

theorem debounce_fires_once_after_burst:
  "es \<noteq> [] \<Longrightarrow> burst wait es \<Longrightarrow>
     calls (resizeEvents wait es noTimers) = [] \<and>
     map (\<lambda>(i, due, args). (due, args)) (pending (resizeEvents wait es noTimers)) =
       [(fst (last es) + wait, snd (last es))] \<and>
     debounced wait es = [(fst (last es) + wait, snd (last es))]"
proof -
  assume ne: "es \<noteq> []" and b: "burst wait es"
  from ne obtain t a es' where es: "es = (t, a) # es'"
    by (cases es) auto
  have r: "resizeEvents wait es noTimers =
      \<lparr> now = fst (last es), nextId = Suc (1 + length es'),
        pending = [(1 + length es', fst (last es) + wait, snd (last es))],
        timeout = Some (1 + length es'), calls = [] \<rparr>"
    using b unfolding es
    by (simp only: resizeEvents.simps resizeEvents_first resizeEvents_burst)
  show ?thesis
    unfolding debounced_def r by (simp add: settle_fires_once)
qed

theorem debounce_fires_once_after_burst_witness:
  "debounced resizeWait [(0, ''a''), (100, ''b''), (300, ''c'')] = [(550, ''c'')]"
proof -
  have "burst resizeWait [(0, ''a''), (100, ''b''), (300, ''c'')]"
    by (simp add: resizeWait_def)
  from debounce_fires_once_after_burst [OF _ this] show ?thesis
    by (simp add: resizeWait_def)
qed

end
